theory Spec2Isabelle
  imports Main
begin

chapter \<open>The Wikipedia and Commons extraction pipeline of \<^verbatim>\<open>wiki_grabber.py\<close>\<close>

text \<open>
  A shallow embedding of \<^verbatim>\<open>wiki_grabber.py\<close> (the Title Resolver, the Content Renderer,
  the Image Locator, the Thumbnail Upgrader and the Image Downloader; the Content Fetcher
  is a single request and has no claim of its own) and the proofs of the claims C1 to C10
  about these components. The definitions come first: the string operations of Python that the
  program uses, the document tree of the HTML parser, the functions of the program, and a
  small example world. The properties follow, component by component. Where a claim does
  not hold of the code, a counterexample at a concrete input comes first and the amended
  claim after it.
\<close>


section \<open>Python strings\<close>

text \<open>
  A Python \<^verbatim>\<open>str\<close> is a sequence of Unicode code points, and \<^verbatim>\<open>len\<close>, slicing,
  \<^verbatim>\<open>split\<close> and the regular expressions of the program all count code points.
  \<^verbatim>\<open>urllib.parse.unquote\<close> produces code points far beyond one byte, so a string is
  modelled as a list of code points (natural numbers), and a literal of the source is
  written \<open>str ''...''\<close>. A \<^verbatim>\<open>bytes\<close> value is a list of numbers below 256.
\<close>

type_synonym ustr = "nat list"
type_synonym bytes = "nat list"

abbreviation str :: "string \<Rightarrow> ustr" where
  "str s \<equiv> map of_char s"

text \<open>\<^verbatim>\<open>s.startswith(p)\<close> and \<^verbatim>\<open>s.endswith(p)\<close>.\<close>

fun startswith :: "ustr \<Rightarrow> ustr \<Rightarrow> bool" where
  "startswith s [] = True"
| "startswith [] (p # ps) = False"
| "startswith (c # cs) (p # ps) = (c = p \<and> startswith cs ps)"

definition endswith :: "ustr \<Rightarrow> ustr \<Rightarrow> bool" where
  "endswith s p = startswith (rev s) (rev p)"

text \<open>\<^verbatim>\<open>sub in s\<close>: \<open>sub\<close> occurs in \<open>s\<close> as a contiguous substring.\<close>

fun str_contains :: "ustr \<Rightarrow> ustr \<Rightarrow> bool" where
  "str_contains sub [] = (sub = [])"
| "str_contains sub (c # cs) = (startswith (c # cs) sub \<or> str_contains sub cs)"

text \<open>
  \<^verbatim>\<open>s.split(sep)\<close> for a non-empty separator: the pieces between the non-overlapping
  occurrences of \<open>sep\<close>, found from left to right. The result is never empty. (Python
  raises \<^verbatim>\<open>ValueError\<close> on an empty separator; every separator of the program is a
  non-empty literal, and the model returns the string unsplit there.)
\<close>

fun str_split_from :: "ustr \<Rightarrow> ustr \<Rightarrow> ustr \<Rightarrow> ustr list" where
  "str_split_from sep acc [] = [acc]"
| "str_split_from sep acc (c # cs) =
     (if sep \<noteq> [] \<and> startswith (c # cs) sep
      then acc # str_split_from sep [] (drop (length sep - 1) cs)
      else str_split_from sep (acc @ [c]) cs)"

definition str_split :: "ustr \<Rightarrow> ustr \<Rightarrow> ustr list" where
  "str_split s sep = str_split_from sep [] s"

text \<open>\<^verbatim>\<open>s.replace(old, new)\<close> for a non-empty \<open>old\<close>: every non-overlapping occurrence,
  from left to right.\<close>

fun str_replace :: "ustr \<Rightarrow> ustr \<Rightarrow> ustr \<Rightarrow> ustr" where
  "str_replace [] old new = []"
| "str_replace (c # cs) old new =
     (if old \<noteq> [] \<and> startswith (c # cs) old
      then new @ str_replace (drop (length old - 1) cs) old new
      else c # str_replace cs old new)"

text \<open>\<^verbatim>\<open>sep.join(parts)\<close>.\<close>

fun str_join :: "ustr \<Rightarrow> ustr list \<Rightarrow> ustr" where
  "str_join sep [] = []"
| "str_join sep [x] = x"
| "str_join sep (x # y # ys) = x @ sep @ str_join sep (y # ys)"

text \<open>
  \<^verbatim>\<open>str.isspace\<close> of one code point; \<^verbatim>\<open>str.strip()\<close> and the class \<^verbatim>\<open>\s\<close> of \<^verbatim>\<open>re\<close> use the
  same set.
\<close>

definition isspace :: "nat \<Rightarrow> bool" where
  "isspace c = ((0x9 \<le> c \<and> c \<le> 0xD) \<or> (0x1C \<le> c \<and> c \<le> 0x20) \<or> c = 0x85 \<or> c = 0xA0
     \<or> c = 0x1680 \<or> (0x2000 \<le> c \<and> c \<le> 0x200A) \<or> c = 0x2028 \<or> c = 0x2029
     \<or> c = 0x202F \<or> c = 0x205F \<or> c = 0x3000)"

definition str_strip :: "ustr \<Rightarrow> ustr" where
  "str_strip s = rev (dropWhile isspace (rev (dropWhile isspace s)))"

subsection \<open>Percent-decoding: \<^verbatim>\<open>urllib.parse.unquote\<close>\<close>

definition is_hexdig :: "nat \<Rightarrow> bool" where
  "is_hexdig c = ((48 \<le> c \<and> c \<le> 57) \<or> (65 \<le> c \<and> c \<le> 70) \<or> (97 \<le> c \<and> c \<le> 102))"

definition hexval :: "nat \<Rightarrow> nat" where
  "hexval c = (if c \<le> 57 then c - 48 else if c \<le> 70 then c - 55 else c - 87)"

text \<open>
  \<^verbatim>\<open>unquote_to_bytes\<close> on an ASCII string: a \<^verbatim>\<open>%\<close> followed by two hexadecimal digits (of
  either case) becomes that byte; any other \<^verbatim>\<open>%\<close> stays as it is.
\<close>

fun unquote_to_bytes :: "ustr \<Rightarrow> bytes" where
  "unquote_to_bytes (c # h1 # h2 # rest) =
     (if c = 37 \<and> is_hexdig h1 \<and> is_hexdig h2
      then (hexval h1 * 16 + hexval h2) # unquote_to_bytes rest
      else c # unquote_to_bytes (h1 # h2 # rest))"
| "unquote_to_bytes s = s"

text \<open>
  \<^verbatim>\<open>bytes.decode('utf-8', 'replace')\<close>. \<open>utf8_step b0 bs\<close> decodes the sequence that starts
  with the byte \<open>b0\<close>: it returns the code point and how many of the following bytes \<open>bs\<close>
  belong to it. An ill-formed sequence gives U+FFFD for its longest well-formed prefix.
\<close>

definition is_cont :: "nat \<Rightarrow> bool" where
  "is_cont b = (0x80 \<le> b \<and> b \<le> 0xBF)"

definition second_ok :: "nat \<Rightarrow> nat \<Rightarrow> bool" where
  "second_ok b0 b1 =
     (if b0 = 0xE0 then 0xA0 \<le> b1 \<and> b1 \<le> 0xBF
      else if b0 = 0xED then 0x80 \<le> b1 \<and> b1 \<le> 0x9F
      else if b0 = 0xF0 then 0x90 \<le> b1 \<and> b1 \<le> 0xBF
      else if b0 = 0xF4 then 0x80 \<le> b1 \<and> b1 \<le> 0x8F
      else is_cont b1)"

definition utf8_step :: "nat \<Rightarrow> bytes \<Rightarrow> nat \<times> nat" where
  "utf8_step b0 bs =
     (if b0 < 0x80 then (b0, 0)
      else if 0xC2 \<le> b0 \<and> b0 \<le> 0xDF then
        (case bs of
           b1 # _ \<Rightarrow> if is_cont b1 then ((b0 - 0xC0) * 64 + (b1 - 0x80), 1) else (0xFFFD, 0)
         | [] \<Rightarrow> (0xFFFD, 0))
      else if 0xE0 \<le> b0 \<and> b0 \<le> 0xEF then
        (case bs of
           b1 # b2 # _ \<Rightarrow>
             if \<not> second_ok b0 b1 then (0xFFFD, 0)
             else if \<not> is_cont b2 then (0xFFFD, 1)
             else ((b0 - 0xE0) * 4096 + (b1 - 0x80) * 64 + (b2 - 0x80), 2)
         | [b1] \<Rightarrow> if second_ok b0 b1 then (0xFFFD, 1) else (0xFFFD, 0)
         | [] \<Rightarrow> (0xFFFD, 0))
      else if 0xF0 \<le> b0 \<and> b0 \<le> 0xF4 then
        (case bs of
           b1 # b2 # b3 # _ \<Rightarrow>
             if \<not> second_ok b0 b1 then (0xFFFD, 0)
             else if \<not> is_cont b2 then (0xFFFD, 1)
             else if \<not> is_cont b3 then (0xFFFD, 2)
             else ((b0 - 0xF0) * 262144 + (b1 - 0x80) * 4096 + (b2 - 0x80) * 64 + (b3 - 0x80), 3)
         | [b1, b2] \<Rightarrow>
             if \<not> second_ok b0 b1 then (0xFFFD, 0)
             else if \<not> is_cont b2 then (0xFFFD, 1)
             else (0xFFFD, 2)
         | [b1] \<Rightarrow> if second_ok b0 b1 then (0xFFFD, 1) else (0xFFFD, 0)
         | [] \<Rightarrow> (0xFFFD, 0))
      else (0xFFFD, 0))"

fun utf8_decode :: "bytes \<Rightarrow> ustr" where
  "utf8_decode [] = []"
| "utf8_decode (b0 # bs) =
     fst (utf8_step b0 bs) # utf8_decode (drop (snd (utf8_step b0 bs)) bs)"

text \<open>
  \<^verbatim>\<open>unquote(string)\<close> with the defaults \<^verbatim>\<open>encoding='utf-8', errors='replace'\<close>: a string
  without \<^verbatim>\<open>%\<close> is returned as it is; otherwise every maximal run of ASCII characters is
  percent-decoded to bytes and those bytes are decoded as UTF-8, and the characters
  between the runs are kept.
\<close>

fun unquote_runs :: "ustr \<Rightarrow> ustr \<Rightarrow> ustr" where
  "unquote_runs run [] = utf8_decode (unquote_to_bytes run)"
| "unquote_runs run (c # cs) =
     (if c < 128 then unquote_runs (run @ [c]) cs
      else utf8_decode (unquote_to_bytes run) @ c # unquote_runs [] cs)"

definition unquote :: "ustr \<Rightarrow> ustr" where
  "unquote s = (if 37 \<notin> set s then s else unquote_runs [] s)"

subsection \<open>Percent-encoding: \<^verbatim>\<open>urllib.parse.quote\<close>\<close>

text \<open>
  \<^verbatim>\<open>str.encode('utf-8')\<close> of one code point. A surrogate (U+D800 to U+DFFF) cannot be
  encoded: Python raises \<^verbatim>\<open>UnicodeEncodeError\<close>, and the model returns \<open>None\<close>.
\<close>

definition utf8_encode :: "nat \<Rightarrow> bytes option" where
  "utf8_encode c =
     (if 0xD800 \<le> c \<and> c \<le> 0xDFFF then None
      else if c < 0x80 then Some [c]
      else if c < 0x800 then Some [0xC0 + c div 64, 0x80 + c mod 64]
      else if c < 0x10000 then
        Some [0xE0 + c div 4096, 0x80 + (c div 64) mod 64, 0x80 + c mod 64]
      else
        Some [0xF0 + c div 262144, 0x80 + (c div 4096) mod 64, 0x80 + (c div 64) mod 64,
              0x80 + c mod 64])"

definition ascii_alnum :: "nat \<Rightarrow> bool" where
  "ascii_alnum c = ((48 \<le> c \<and> c \<le> 57) \<or> (65 \<le> c \<and> c \<le> 90) \<or> (97 \<le> c \<and> c \<le> 122))"

text \<open>The characters that \<^verbatim>\<open>quote\<close> keeps with its default \<^verbatim>\<open>safe='/'\<close>: ASCII letters and
  digits and \<^verbatim>\<open>_.-~/\<close>.\<close>

definition quote_safe :: "nat \<Rightarrow> bool" where
  "quote_safe c = (ascii_alnum c \<or> c \<in> set (str ''_.-~/''))"

definition hex_upper :: "nat \<Rightarrow> nat" where
  "hex_upper n = (if n < 10 then 48 + n else 55 + n)"

definition percent_byte :: "nat \<Rightarrow> ustr" where
  "percent_byte b = [37, hex_upper (b div 16), hex_upper (b mod 16)]"

fun quote :: "ustr \<Rightarrow> ustr option" where
  "quote [] = Some []"
| "quote (c # cs) =
     (case utf8_encode c of
        None \<Rightarrow> None
      | Some bs \<Rightarrow>
          (case quote cs of
             None \<Rightarrow> None
           | Some rest \<Rightarrow>
               Some ((if quote_safe c then [c] else concat (map percent_byte bs)) @ rest)))"

subsection \<open>The size pattern of the Thumbnail Upgrader\<close>

text \<open>The format \<^verbatim>\<open>{size:,}\<close> of a natural number: decimal digits with a comma between
  groups of three.\<close>

fun decimal :: "nat \<Rightarrow> ustr" where
  "decimal n = (if n < 10 then [48 + n] else decimal (n div 10) @ [48 + n mod 10])"

fun format_comma :: "nat \<Rightarrow> ustr" where
  "format_comma n =
     (if n < 1000 then decimal n
      else format_comma (n div 1000)
           @ [44, 48 + (n mod 1000) div 100, 48 + (n mod 100) div 10, 48 + n mod 10])"

declare decimal.simps [simp del] format_comma.simps [simp del]

text \<open>
  A word character of \<^verbatim>\<open>re\<close> (the class \<^verbatim>\<open>\w\<close>): a letter or digit, or the underscore. For
  a code point beyond ASCII the answer lies in the Unicode database (\<^verbatim>\<open>str.isalnum\<close>),
  which is the parameter \<open>alnum\<close>.
\<close>

definition is_word :: "(nat \<Rightarrow> bool) \<Rightarrow> nat \<Rightarrow> bool" where
  "is_word alnum c = (if c < 128 then ascii_alnum c \<or> c = 95 else alnum c)"

text \<open>\<^verbatim>\<open>.*pixel\<close> matches at the start of \<open>s\<close>: the word \<^verbatim>\<open>pixel\<close> begins somewhere on the
  first line of \<open>s\<close> (the dot matches no line feed).\<close>

fun pixel_follows :: "ustr \<Rightarrow> bool" where
  "pixel_follows [] = False"
| "pixel_follows (c # cs) = (startswith (c # cs) (str ''pixel'') \<or> (c \<noteq> 10 \<and> pixel_follows cs))"

text \<open>
  \<^verbatim>\<open>re.search(rf'\b{size:,}\b.*pixel', text)\<close>, where \<open>lit\<close> is the formatted size, which
  begins and ends with a digit: \<open>lit\<close> occurs in the text with no word character directly
  before or after it, and \<^verbatim>\<open>pixel\<close> follows on the same line. \<open>prev\<close> is the character
  before the position under inspection.
\<close>

fun search_from :: "(nat \<Rightarrow> bool) \<Rightarrow> ustr \<Rightarrow> nat option \<Rightarrow> ustr \<Rightarrow> bool" where
  "search_from alnum lit prev [] = False"
| "search_from alnum lit prev (c # cs) =
     ((startswith (c # cs) lit
       \<and> (case prev of None \<Rightarrow> True | Some p \<Rightarrow> \<not> is_word alnum p)
       \<and> (case drop (length lit) (c # cs) of [] \<Rightarrow> True | n # _ \<Rightarrow> \<not> is_word alnum n)
       \<and> pixel_follows (drop (length lit) (c # cs)))
      \<or> search_from alnum lit (Some c) cs)"

definition size_pattern :: "(nat \<Rightarrow> bool) \<Rightarrow> nat \<Rightarrow> ustr \<Rightarrow> bool" where
  "size_pattern alnum width text = search_from alnum (format_comma width) None text"

subsection \<open>Indexing\<close>

text \<open>
  The subscript \<^verbatim>\<open>xs[i]\<close> of a list: \<open>i\<close> from 0 up to the length reads from the front,
  \<open>i\<close> from \<open>-1\<close> down to minus the length reads from the back, and every other \<open>i\<close> is an
  \<^verbatim>\<open>IndexError\<close>.
\<close>

datatype py_error = IndexError | UnicodeEncodeError | OSError

definition getitem :: "'a list \<Rightarrow> int \<Rightarrow> py_error + 'a" where
  "getitem xs i =
     (if 0 \<le> i \<and> i < int (length xs) then Inr (xs ! nat i)
      else if i < 0 \<and> - int (length xs) \<le> i then Inr (xs ! nat (int (length xs) + i))
      else Inl IndexError)"

section \<open>Title Resolver: \<^verbatim>\<open>extract_wiki_title\<close>\<close>

text \<open>
  \<^verbatim>\<open>
  if '/wiki/' in wiki_url:
      title = wiki_url.split('/wiki/')[1].split('#')[0].split('?')[0]
      title = urllib.parse.unquote(title).replace('_', ' ')
      return title
  return None
  \<close>
  The result is \<open>Inr None\<close> for Python's \<^verbatim>\<open>None\<close>, \<open>Inr (Some title)\<close> for a returned
  title, and \<open>Inl e\<close> if one of the three index operations raised.
\<close>

definition wiki_marker :: ustr where
  "wiki_marker = str ''/wiki/''"

definition extract_wiki_title :: "ustr \<Rightarrow> py_error + ustr option" where
  "extract_wiki_title wiki_url =
     (if str_contains wiki_marker wiki_url then
        (case getitem (str_split wiki_url wiki_marker) 1 of
           Inl e \<Rightarrow> Inl e
         | Inr after \<Rightarrow>
             (case getitem (str_split after (str ''#'')) 0 of
                Inl e \<Rightarrow> Inl e
              | Inr no_fragment \<Rightarrow>
                  (case getitem (str_split no_fragment (str ''?'')) 0 of
                     Inl e \<Rightarrow> Inl e
                   | Inr title \<Rightarrow>
                       Inr (Some (str_replace (unquote title) (str ''_'') (str '' ''))))))
      else Inr None)"

subsection \<open>The title as the specification words it\<close>

text \<open>
  \<open>after_first sep s\<close> is the text of \<open>s\<close> after the first occurrence of \<open>sep\<close> (if there
  is one), \<open>before_first sep s\<close> the text before it (all of \<open>s\<close> if there is none).
\<close>

fun after_first :: "ustr \<Rightarrow> ustr \<Rightarrow> ustr option" where
  "after_first sep [] = None"
| "after_first sep (c # cs) =
     (if startswith (c # cs) sep then Some (drop (length sep) (c # cs)) else after_first sep cs)"

fun before_first :: "ustr \<Rightarrow> ustr \<Rightarrow> ustr" where
  "before_first sep [] = []"
| "before_first sep (c # cs) =
     (if startswith (c # cs) sep then [] else c # before_first sep cs)"

text \<open>Truncation at the first \<^verbatim>\<open>#\<close> or \<^verbatim>\<open>?\<close>; percent-decoding followed by the replacement of
  every underscore by a space.\<close>

definition until_delimiter :: "ustr \<Rightarrow> ustr" where
  "until_delimiter s = takeWhile (\<lambda>c. c \<noteq> 35 \<and> c \<noteq> 63) s"

definition decode_title :: "ustr \<Rightarrow> ustr" where
  "decode_title s = map (\<lambda>c. if c = 95 then 32 else c) (unquote s)"

text \<open>
  The title of the specification: the whole substring after the marker, truncated at the
  first delimiter and decoded.
\<close>

definition spec_title :: "ustr \<Rightarrow> ustr option" where
  "spec_title wiki_url =
     (case after_first wiki_marker wiki_url of
        None \<Rightarrow> None
      | Some rest \<Rightarrow> Some (decode_title (until_delimiter rest)))"

text \<open>
  The same, with the substring after the marker ending at the next occurrence of the
  marker when there is one.
\<close>

definition segment_title :: "ustr \<Rightarrow> ustr option" where
  "segment_title wiki_url =
     (case after_first wiki_marker wiki_url of
        None \<Rightarrow> None
      | Some rest \<Rightarrow> Some (decode_title (until_delimiter (before_first wiki_marker rest))))"

text \<open>Whether the marker occurs again after its first occurrence.\<close>

definition marker_repeats :: "ustr \<Rightarrow> bool" where
  "marker_repeats wiki_url =
     (case after_first wiki_marker wiki_url of
        None \<Rightarrow> False
      | Some rest \<Rightarrow> str_contains wiki_marker rest)"

section \<open>The document tree of BeautifulSoup\<close>

text \<open>
  \<^verbatim>\<open>BeautifulSoup(markup, 'html.parser')\<close> is a library call; the program works on the
  tree it returns. A tree is a list of nodes: a \<open>Tag\<close> with its name, the tokens of its
  \<^verbatim>\<open>class\<close> attribute (the parser splits this attribute at whitespace; no tokens when the
  attribute is missing or empty), its other attributes and its children; a text node;
  or a comment, which \<^verbatim>\<open>get_text\<close> leaves out. The parser itself is a parameter of every
  function that calls it.
\<close>

datatype node =
    Tag (tag_name: ustr) (tag_class: "ustr list") (tag_attrs: "(ustr \<times> ustr) list")
      (tag_contents: "node list")
  | NavigableString ustr
  | Comment ustr

type_synonym parser = "ustr \<Rightarrow> node list"

text \<open>\<^verbatim>\<open>tag.get_text()\<close>: the text nodes below the tag, concatenated in document order.\<close>

fun get_text :: "node \<Rightarrow> ustr" where
  "get_text (Tag n c a ch) = concat (map get_text ch)"
| "get_text (NavigableString s) = s"
| "get_text (Comment s) = []"

text \<open>\<^verbatim>\<open>tag.descendants\<close>, in document order; \<open>all_nodes\<close> is the same for a whole tree.\<close>

fun descendants :: "node \<Rightarrow> node list" where
  "descendants (Tag n c a ch) = concat (map (\<lambda>x. x # descendants x) ch)"
| "descendants (NavigableString s) = []"
| "descendants (Comment s) = []"

definition all_nodes :: "node list \<Rightarrow> node list" where
  "all_nodes doc = concat (map (\<lambda>x. x # descendants x) doc)"

text \<open>
  A search criterion of \<^verbatim>\<open>find\<close> and \<^verbatim>\<open>find_all\<close>: a tag whose name is one of \<open>names\<close> and,
  when a class is asked for (\<^verbatim>\<open>{'class': k}\<close>), with \<open>k\<close> among its class tokens.
\<close>

fun matches :: "ustr list \<Rightarrow> ustr option \<Rightarrow> node \<Rightarrow> bool" where
  "matches names cls (Tag n c a ch) =
     (n \<in> set names \<and> (case cls of None \<Rightarrow> True | Some k \<Rightarrow> k \<in> set c))"
| "matches names cls (NavigableString s) = False"
| "matches names cls (Comment s) = False"

text \<open>\<^verbatim>\<open>find_all\<close> and \<^verbatim>\<open>find\<close> below a tag (\<open>nodes\<close> is what lies below it), and
  \<^verbatim>\<open>find_all(..., recursive=False)\<close> among its children.\<close>

definition find_all :: "node list \<Rightarrow> ustr list \<Rightarrow> ustr option \<Rightarrow> node list" where
  "find_all nodes names cls = filter (matches names cls) nodes"

definition find :: "node list \<Rightarrow> ustr list \<Rightarrow> ustr option \<Rightarrow> node option" where
  "find nodes names cls =
     (case find_all nodes names cls of [] \<Rightarrow> None | x # _ \<Rightarrow> Some x)"

text \<open>\<^verbatim>\<open>tag.get(key, '')\<close> and \<^verbatim>\<open>key in tag.attrs\<close> for an attribute other than \<^verbatim>\<open>class\<close>.\<close>

definition attr :: "node \<Rightarrow> ustr \<Rightarrow> ustr option" where
  "attr t key = map_of (tag_attrs t) key"

text \<open>
  \<^verbatim>\<open>for unwanted in soup.select(sel): unwanted.decompose()\<close> with a selector list of
  classes: every tag that carries one of the classes leaves the tree, with all below it.
\<close>

fun selected :: "ustr list \<Rightarrow> node \<Rightarrow> bool" where
  "selected sel (Tag n c a ch) = list_ex (\<lambda>k. k \<in> set c) sel"
| "selected sel (NavigableString s) = False"
| "selected sel (Comment s) = False"

fun decompose_in :: "ustr list \<Rightarrow> node \<Rightarrow> node" where
  "decompose_in sel (Tag n c a ch) =
     Tag n c a (map (decompose_in sel) (filter (\<lambda>x. \<not> selected sel x) ch))"
| "decompose_in sel (NavigableString s) = NavigableString s"
| "decompose_in sel (Comment s) = Comment s"

definition decompose_all :: "ustr list \<Rightarrow> node list \<Rightarrow> node list" where
  "decompose_all sel doc = map (decompose_in sel) (filter (\<lambda>x. \<not> selected sel x) doc)"

text \<open>
  Every tag of a tree in document order, each with its \<^verbatim>\<open>parents\<close> (nearest first). The
  document object itself, the last parent of every node, has no attributes and is left out.
\<close>

fun tags_below :: "node list \<Rightarrow> node \<Rightarrow> (node \<times> node list) list" where
  "tags_below ps (Tag n c a ch) =
     (Tag n c a ch, ps) # concat (map (tags_below (Tag n c a ch # ps)) ch)"
| "tags_below ps (NavigableString s) = []"
| "tags_below ps (Comment s) = []"

definition all_tags :: "node list \<Rightarrow> (node \<times> node list) list" where
  "all_tags doc = concat (map (tags_below []) doc)"

section \<open>Content Renderer: \<^verbatim>\<open>process_wiki_content\<close>\<close>

text \<open>
  The \<^verbatim>\<open>parse\<close> object of the API as the renderer reads it. \<open>api_text\<close> is the entry
  \<^verbatim>\<open>'text'\<close>, itself an object whose entry \<^verbatim>\<open>'*'\<close> holds the markup: \<open>None\<close> when
  \<^verbatim>\<open>'text'\<close> is missing, \<open>Some None\<close> when \<^verbatim>\<open>'text'\<close> is there without \<^verbatim>\<open>'*'\<close>. A category is
  represented by its entry \<^verbatim>\<open>'*'\<close>. The renderer also builds a dictionary from the entry
  \<^verbatim>\<open>'sections'\<close> and never reads it.
\<close>

record api_data =
  api_text :: "ustr option option"
  api_displaytitle :: "ustr option"
  api_title :: "ustr option"
  api_categories :: "ustr list option"
  api_externallinks :: "ustr list option"

definition unwanted_classes :: "ustr list" where
  "unwanted_classes =
     [str ''mw-editsection'', str ''reference'', str ''mw-empty-elt'', str ''noprint'',
      str ''mbox-image'']"

definition block_names :: "ustr list" where
  "block_names =
     [str ''p'', str ''h1'', str ''h2'', str ''h3'', str ''h4'', str ''h5'', str ''h6'',
      str ''ul'', str ''ol'', str ''table'']"

text \<open>
  \<^verbatim>\<open>any(parent.get('class', '') and any(c in ' '.join(parent.get('class', '')) for c in
  ['toc', 'sidebar', 'navbox', 'vertical-navbox']) for parent in element.parents)\<close>
\<close>

definition in_unwanted_section :: "node list \<Rightarrow> bool" where
  "in_unwanted_section parents =
     list_ex (\<lambda>parent. tag_class parent \<noteq> [] \<and>
        list_ex (\<lambda>c. str_contains c (str_join (str '' '') (tag_class parent)))
          [str ''toc'', str ''sidebar'', str ''navbox'', str ''vertical-navbox''])
       parents"

text \<open>\<^verbatim>\<open>re.sub(r'^\[\s*edit\s*\]', '', heading_text)\<close>: a leading \<^verbatim>\<open>[edit]\<close>, with any
  white space inside the brackets, is removed.\<close>

definition strip_edit_marker :: "ustr \<Rightarrow> ustr" where
  "strip_edit_marker s =
     (if startswith s (str ''['') then
        (let r1 = dropWhile isspace (drop 1 s) in
         if startswith r1 (str ''edit'') then
           (let r2 = dropWhile isspace (drop 4 r1) in
            if startswith r2 (str '']'') then drop 1 r2 else s)
         else s)
      else s)"

text \<open>The text that one element of the loop adds to \<^verbatim>\<open>plain_text\<close>. The names are those
  of \<open>block_names\<close>, so a name that starts with \<^verbatim>\<open>h\<close> is a letter and a digit.\<close>

definition render_list :: "node \<Rightarrow> ustr" where
  "render_list element =
     concat (map (\<lambda>li. str ''- '' @ str_strip (get_text li) @ [10])
               (find_all (tag_contents element) [str ''li''] None)) @ [10]"

definition render_element :: "node \<Rightarrow> ustr" where
  "render_element element =
     (if startswith (tag_name element) (str ''h'') then
        (let level = tag_name element ! 1 - 48;
             heading_text = strip_edit_marker (str_strip (get_text element))
         in [10] @ replicate level 35 @ str '' '' @ heading_text @ [10, 10])
      else if tag_name element = str ''p'' then
        (let paragraph_text = str_strip (get_text element)
         in if paragraph_text \<noteq> [] then paragraph_text @ [10, 10] else [])
      else if tag_name element \<in> set [str ''ul'', str ''ol''] then render_list element
      else if tag_name element = str ''table'' then
        (case find (descendants element) [str ''caption''] None of
           Some caption \<Rightarrow> str ''[Table: '' @ str_strip (get_text caption) @ str '']'' @ [10, 10]
         | None \<Rightarrow> str ''[Table content]'' @ [10, 10])
      else [])"

text \<open>The elements the loop renders: the block elements of the tree, in document order,
  without those below a table of contents, sidebar or navigation box.\<close>

definition rendered_elements :: "node list \<Rightarrow> node list" where
  "rendered_elements soup =
     map fst (filter (\<lambda>(element, parents). \<not> in_unwanted_section parents)
                (filter (\<lambda>(element, parents). matches block_names None element)
                   (all_tags soup)))"

definition render_metadata :: "api_data \<Rightarrow> ustr" where
  "render_metadata d =
     (case api_categories d of
        None \<Rightarrow> []
      | Some cats \<Rightarrow>
          [10] @ str ''## Categories'' @ [10]
          @ concat (map (\<lambda>cat. str ''- '' @ str_replace cat (str ''Category:'') [] @ [10]) cats))
     @ (case api_externallinks d of
        None \<Rightarrow> []
      | Some links \<Rightarrow>
          [10] @ str ''## External Links'' @ [10]
          @ concat (map (\<lambda>link. str ''- '' @ link @ [10]) links))"

definition failure_text :: ustr where
  "failure_text = str ''Failed to retrieve page content''"

text \<open>\<^verbatim>\<open>api_data.get('displaytitle', api_data.get('title', 'Untitled'))\<close>\<close>

definition display_title :: "api_data \<Rightarrow> ustr" where
  "display_title d =
     (case api_displaytitle d of
        Some t \<Rightarrow> t
      | None \<Rightarrow> (case api_title d of Some t \<Rightarrow> t | None \<Rightarrow> str ''Untitled''))"

text \<open>The text before the final \<^verbatim>\<open>strip()\<close>: the title line, the blocks of the loop and the
  metadata. \<open>soup\<close> is the tree of the markup after the unwanted elements have left it,
  \<open>title_soup\<close> the tree of the title.\<close>

definition plain_text :: "node list \<Rightarrow> node list \<Rightarrow> api_data \<Rightarrow> ustr" where
  "plain_text soup title_soup d =
     str ''# '' @ concat (map get_text title_soup) @ [10, 10]
     @ concat (map render_element (rendered_elements soup))
     @ render_metadata d"

definition process_wiki_content :: "parser \<Rightarrow> api_data option \<Rightarrow> ustr \<times> ustr option" where
  "process_wiki_content BeautifulSoup api =
     (case api of
        None \<Rightarrow> (failure_text, None)
      | Some d \<Rightarrow>
          (case api_text d of
             None \<Rightarrow> (failure_text, None)
           | Some None \<Rightarrow> (failure_text, None)
           | Some (Some html_content) \<Rightarrow>
               (let soup = decompose_all unwanted_classes (BeautifulSoup html_content);
                    title_soup = BeautifulSoup (display_title d)
                in (str_strip (plain_text soup title_soup d), Some html_content))))"

subsection \<open>Example documents\<close>

text \<open>
  The trees that the parser builds for the markup strings of the examples below: a
  paragraph, a list with a list nested in its item, and text without any markup (one text
  node; nothing for the empty string).
\<close>

definition gravity_markup :: ustr where
  "gravity_markup = str ''<p>Gravity is...</p>''"

definition nested_list_markup :: ustr where
  "nested_list_markup = str ''<ul><li>a<ul><li>b</li></ul></li></ul>''"

definition inner_list :: node where
  "inner_list = Tag (str ''ul'') [] [] [Tag (str ''li'') [] [] [NavigableString (str ''b'')]]"

definition outer_item :: node where
  "outer_item = Tag (str ''li'') [] [] [NavigableString (str ''a''), inner_list]"

definition nested_list :: node where
  "nested_list = Tag (str ''ul'') [] [] [outer_item]"

definition gravity_paragraph :: node where
  "gravity_paragraph = Tag (str ''p'') [] [] [NavigableString (str ''Gravity is...'')]"

definition example_parser :: parser where
  "example_parser markup =
     (if markup = gravity_markup then [gravity_paragraph]
      else if markup = nested_list_markup then [nested_list]
      else if markup = [] then []
      else [NavigableString markup])"

definition gravity_tree :: api_data where
  "gravity_tree =
     \<lparr>api_text = Some (Some gravity_markup), api_displaytitle = Some (str ''Gravity''),
      api_title = None, api_categories = Some [str ''Category:Physics''],
      api_externallinks = None\<rparr>"

definition nested_list_tree :: api_data where
  "nested_list_tree =
     \<lparr>api_text = Some (Some nested_list_markup), api_displaytitle = Some (str ''Lists''),
      api_title = None, api_categories = None, api_externallinks = None\<rparr>"

definition empty_markup_tree :: api_data where
  "empty_markup_tree =
     \<lparr>api_text = Some (Some []), api_displaytitle = None, api_title = None,
      api_categories = None, api_externallinks = None\<rparr>"

text \<open>The markup of a content tree, when it has one; and the elements that the renderer
  treats as lists.\<close>

definition markup_of :: "api_data option \<Rightarrow> ustr option" where
  "markup_of api =
     (case api of
        None \<Rightarrow> None
      | Some d \<Rightarrow> (case api_text d of Some (Some html_content) \<Rightarrow> Some html_content | _ \<Rightarrow> None))"

definition is_list :: "node \<Rightarrow> bool" where
  "is_list element = matches [str ''ul'', str ''ol''] None element"

text \<open>The text of the end-to-end scenario as the specification gives it, and with the
  empty line that precedes the category heading.\<close>

definition spec_gravity_text :: ustr where
  "spec_gravity_text =
     str ''# Gravity'' @ [10, 10] @ str ''Gravity is...'' @ [10, 10]
     @ str ''## Categories'' @ [10] @ str ''- Physics''"

definition gravity_text :: ustr where
  "gravity_text =
     str ''# Gravity'' @ [10, 10] @ str ''Gravity is...'' @ [10, 10, 10]
     @ str ''## Categories'' @ [10] @ str ''- Physics''"

section \<open>The world outside: network, image decoder, file system\<close>

text \<open>
  What \<^verbatim>\<open>requests.get\<close> returns: the final address after redirects, the status code, the
  body as text and as bytes.
\<close>

record response =
  resp_url :: ustr
  status_code :: int
  resp_text :: ustr
  resp_content :: bytes

text \<open>
  The collaborators of the program that are not part of it. The state of the world
  outside (servers, directories, permissions) is a value of the type \<open>'w\<close> that every
  operation takes and returns.
  \<^item> \<open>requests_get w url\<close>: the request, sent with the headers of \<^verbatim>\<open>get_headers()\<close> (a
    user agent drawn at random from five, and six fixed fields); \<open>None\<close> when the call
    raises an exception.
  \<^item> \<open>html_parser\<close>: the parser, \<^verbatim>\<open>BeautifulSoup(text, 'html.parser')\<close>.
  \<^item> \<open>isalnum\<close>: the alphanumeric code points beyond ASCII.
  \<^item> \<open>Image_open bytes\<close>: whether \<^verbatim>\<open>Image.open(BytesIO(bytes))\<close> succeeds.
  \<^item> \<open>os_path_exists\<close>, \<open>os_makedirs\<close> (\<open>None\<close> when it raises) and \<open>open_wb\<close> (whether
    \<^verbatim>\<open>open(path, 'wb')\<close> and the write succeed).
  The contents of the files that the program writes are kept in a map of their own, from
  paths to bytes. The pause of \<^verbatim>\<open>time.sleep\<close> and the printed messages have no part in any
  result and are left out.
\<close>

record 'w env =
  requests_get :: "'w \<Rightarrow> ustr \<Rightarrow> response option \<times> 'w"
  html_parser :: parser
  isalnum :: "nat \<Rightarrow> bool"
  Image_open :: "bytes \<Rightarrow> bool"
  os_path_exists :: "'w \<Rightarrow> ustr \<Rightarrow> bool"
  os_makedirs :: "'w \<Rightarrow> ustr \<Rightarrow> 'w option"
  open_wb :: "'w \<Rightarrow> ustr \<Rightarrow> bool"

type_synonym files = "ustr \<rightharpoonup> bytes"

section \<open>Image Locator\<close>

record image_info =
  filename :: ustr
  thumbnail_url :: ustr
  file_page :: ustr

text \<open>
  The descriptor built from the \<^verbatim>\<open>src\<close> of a thumbnail and the \<^verbatim>\<open>href\<close> of its link:
  \<^verbatim>\<open>
  thumb_url = thumb['src']
  if not thumb_url.startswith('http'): thumb_url = 'https:' + thumb_url
  file_page = link['href']
  if not file_page.startswith('http'): file_page = 'https://commons.wikimedia.org' + file_page
  filename = urllib.parse.unquote(file_page.split('/')[-1])
  \<close>
  \<^verbatim>\<open>split\<close> never returns an empty list, so the index \<^verbatim>\<open>[-1]\<close> is its last element.
\<close>

definition make_image :: "ustr \<Rightarrow> ustr \<Rightarrow> image_info" where
  "make_image src href =
     (let thumb_url = (if startswith src (str ''http'') then src else str ''https:'' @ src);
          page = (if startswith href (str ''http'') then href
                  else str ''https://commons.wikimedia.org'' @ href)
      in \<lparr>filename = unquote (last (str_split page (str ''/''))),
          thumbnail_url = thumb_url, file_page = page\<rparr>)"

text \<open>
  The body of the two loops of Tier 1, over gallery boxes and over thumbnail containers:
  \<^verbatim>\<open>thumb = li.find('img'); link = li.find('a', {'class': 'image'})\<close>, and a descriptor if
  both are there with their attributes.
\<close>

definition box_image :: "node \<Rightarrow> image_info option" where
  "box_image box =
     (case find (descendants box) [str ''img''] None of
        None \<Rightarrow> None
      | Some thumb \<Rightarrow>
          (case find (descendants box) [str ''a''] (Some (str ''image'')) of
             None \<Rightarrow> None
           | Some link \<Rightarrow>
               (case attr thumb (str ''src'') of
                  None \<Rightarrow> None
                | Some src \<Rightarrow>
                    (case attr link (str ''href'') of
                       None \<Rightarrow> None
                     | Some href \<Rightarrow> Some (make_image src href)))))"

text \<open>The body of the first loop of Tier 2: the result is itself the link, the thumbnail
  is searched below it.\<close>

definition result_image :: "node \<Rightarrow> image_info option" where
  "result_image result =
     (case attr result (str ''href'') of
        None \<Rightarrow> None
      | Some href \<Rightarrow>
          (case find (descendants result) [str ''img''] None of
             None \<Rightarrow> None
           | Some img \<Rightarrow>
               (case attr img (str ''src'') of
                  None \<Rightarrow> None
                | Some src \<Rightarrow> Some (make_image src href))))"

text \<open>The body of the second loop of Tier 2: \<^verbatim>\<open>link = result.find('a'); img =
  result.find('img')\<close>.\<close>

definition block_image :: "node \<Rightarrow> image_info option" where
  "block_image result =
     (case find (descendants result) [str ''a''] None of
        None \<Rightarrow> None
      | Some link \<Rightarrow>
          (case find (descendants result) [str ''img''] None of
             None \<Rightarrow> None
           | Some img \<Rightarrow>
               (case attr link (str ''href'') of
                  None \<Rightarrow> None
                | Some href \<Rightarrow>
                    (case attr img (str ''src'') of
                       None \<Rightarrow> None
                     | Some src \<Rightarrow> Some (make_image src href)))))"

text \<open>
  One scanning loop. The state is the pair of \<^verbatim>\<open>images\<close> and \<^verbatim>\<open>count\<close>:
  \<^verbatim>\<open>
  for x in xs:
      if count >= max_images: break
      ... images.append(...); count += 1
  \<close>
\<close>

fun scan :: "(node \<Rightarrow> image_info option) \<Rightarrow> int \<Rightarrow> node list \<Rightarrow> image_info list \<times> int
    \<Rightarrow> image_info list \<times> int" where
  "scan item max_images [] (images, count) = (images, count)"
| "scan item max_images (x # xs) (images, count) =
     (if count \<ge> max_images then (images, count)
      else (case item x of
              None \<Rightarrow> scan item max_images xs (images, count)
            | Some found \<Rightarrow> scan item max_images xs (images @ [found], count + 1)))"

text \<open>The descriptors that Tier 1 extracts from the tree of the category page: the boxes
  of the first gallery, then, if the count is still below the maximum, the thumbnail
  containers of the page.\<close>

definition category_page_images :: "node list \<Rightarrow> int \<Rightarrow> image_info list" where
  "category_page_images soup max_images =
     (let (images, count) =
            (case find (all_nodes soup) [str ''ul''] (Some (str ''gallery'')) of
               None \<Rightarrow> ([], 0)
             | Some gallery \<Rightarrow>
                 scan box_image max_images
                   (find_all (descendants gallery) [str ''li''] (Some (str ''gallerybox'')))
                   ([], 0))
      in fst (if count < max_images
              then scan box_image max_images
                     (find_all (all_nodes soup) [str ''div''] (Some (str ''thumb'')))
                     (images, count)
              else (images, count)))"

text \<open>The descriptors that Tier 2 extracts from the tree of the search page: the result
  links, and the result blocks of the older format if there was no result link.\<close>

definition search_page_images :: "node list \<Rightarrow> int \<Rightarrow> image_info list" where
  "search_page_images soup max_images =
     (let (images, count) =
            scan result_image max_images
              (find_all (all_nodes soup) [str ''a''] (Some (str ''sdms-image-result'')))
              ([], 0)
      in fst (if images = []
              then scan block_image max_images
                     (find_all (all_nodes soup) [str ''div''] (Some (str ''searchResultImage'')))
                     (images, count)
              else (images, count)))"

definition commons_url :: "ustr \<Rightarrow> ustr" where
  "commons_url page_name =
     str ''https://commons.wikimedia.org/wiki/Category:''
     @ str_replace page_name (str '' '') (str ''_'')"

definition search_url :: "ustr \<Rightarrow> ustr" where
  "search_url quoted_name =
     str ''https://commons.wikimedia.org/w/index.php?search='' @ quoted_name
     @ str ''&title=Special:MediaSearch&type=image''"

text \<open>
  Tier 2, \<^verbatim>\<open>get_commons_file_namespace\<close>. The search address is built before the \<^verbatim>\<open>try\<close>,
  so a name that cannot be encoded raises out of the function; everything after it is
  inside the \<^verbatim>\<open>try\<close>, and an exception there gives the empty list.
\<close>

definition get_commons_file_namespace ::
    "'w env \<Rightarrow> 'w \<Rightarrow> ustr \<Rightarrow> int \<Rightarrow> (py_error + image_info list) \<times> 'w" where
  "get_commons_file_namespace E w page_name max_images =
     (case quote page_name of
        None \<Rightarrow> (Inl UnicodeEncodeError, w)
      | Some quoted_name \<Rightarrow>
          (case requests_get E w (search_url quoted_name) of
             (None, w') \<Rightarrow> (Inr [], w')
           | (Some response, w') \<Rightarrow>
               if status_code response \<noteq> 200 then (Inr [], w')
               else (Inr (search_page_images (html_parser E (resp_text response)) max_images),
                     w')))"

text \<open>A call of Tier 2 from inside the \<^verbatim>\<open>try\<close> of Tier 1: an exception of Tier 2 is
  caught there, and Tier 1 returns the empty list.\<close>

definition tier2_in_try :: "'w env \<Rightarrow> 'w \<Rightarrow> ustr \<Rightarrow> int \<Rightarrow> image_info list \<times> 'w" where
  "tier2_in_try E w page_name max_images =
     (case get_commons_file_namespace E w page_name max_images of
        (Inl e, w') \<Rightarrow> ([], w')
      | (Inr images, w') \<Rightarrow> (images, w'))"

text \<open>Tier 1, \<^verbatim>\<open>get_commons_category_images\<close>, the entry of the Image Locator.\<close>

definition get_commons_category_images ::
    "'w env \<Rightarrow> 'w \<Rightarrow> ustr \<Rightarrow> int \<Rightarrow> image_info list \<times> 'w" where
  "get_commons_category_images E w page_name max_images =
     (case requests_get E w (commons_url page_name) of
        (None, w') \<Rightarrow> ([], w')
      | (Some response, w') \<Rightarrow>
          if str_contains (str ''Special:Search'') (resp_url response)
          then tier2_in_try E w' page_name max_images
          else if status_code response \<noteq> 200 then ([], w')
          else (let images = category_page_images (html_parser E (resp_text response))
                               max_images
                in if images = [] then tier2_in_try E w' page_name max_images
                   else (images, w')))"

section \<open>Thumbnail Upgrader: \<^verbatim>\<open>find_larger_thumbnail\<close>\<close>

definition candidate_sizes :: "nat list" where
  "candidate_sizes = [1600, 1200, 1000, 800, 600, 400, 300]"

text \<open>\<^verbatim>\<open>u if u.startswith('http') else ('https:' + u)\<close>\<close>

definition absolute_url :: "ustr \<Rightarrow> ustr" where
  "absolute_url u = (if startswith u (str ''http'') then u else str ''https:'' @ u)"

text \<open>\<^verbatim>\<open>link.get('href', '')\<close>\<close>

definition link_href :: "node \<Rightarrow> ustr" where
  "link_href link = (case attr link (str ''href'') of None \<Rightarrow> [] | Some href \<Rightarrow> href)"

text \<open>
  The test on one anchor for one candidate width:
  \<^verbatim>\<open>re.search(rf'\b{size:,}\b.*pixel', text) and href and '/thumb/' in href\<close>,
  with \<^verbatim>\<open>text = link.get_text().strip()\<close>.
\<close>

definition link_matches :: "(nat \<Rightarrow> bool) \<Rightarrow> nat \<Rightarrow> node \<Rightarrow> bool" where
  "link_matches alnum width link =
     (size_pattern alnum width (str_strip (get_text link))
      \<and> link_href link \<noteq> [] \<and> str_contains (str ''/thumb/'') (link_href link))"

text \<open>
  The two nested loops: the candidate widths in their order, those below \<open>min_width\<close>
  skipped (\<^verbatim>\<open>continue\<close>), and for each the anchors of the page in document order; the
  first anchor that passes the test ends the search.
\<close>

fun sized_link :: "(nat \<Rightarrow> bool) \<Rightarrow> node list \<Rightarrow> int \<Rightarrow> nat list \<Rightarrow> ustr option" where
  "sized_link alnum size_links min_width [] = None"
| "sized_link alnum size_links min_width (width # widths) =
     (if int width < min_width then sized_link alnum size_links min_width widths
      else (case filter (link_matches alnum width) size_links of
              [] \<Rightarrow> sized_link alnum size_links min_width widths
            | link # _ \<Rightarrow> Some (absolute_url (link_href link))))"

text \<open>The image of the full-image link: \<^verbatim>\<open>soup.find('div', {'class': 'fullImageLink'})\<close>,
  the first \<^verbatim>\<open>img\<close> below it, and its \<^verbatim>\<open>src\<close>.\<close>

definition full_image_link :: "node list \<Rightarrow> ustr option" where
  "full_image_link soup =
     (case find (all_nodes soup) [str ''div''] (Some (str ''fullImageLink'')) of
        None \<Rightarrow> None
      | Some img_div \<Rightarrow>
          (case find (descendants img_div) [str ''img''] None of
             None \<Rightarrow> None
           | Some img \<Rightarrow>
               (case attr img (str ''src'') of
                  None \<Rightarrow> None
                | Some src \<Rightarrow> Some (absolute_url src))))"

definition page_thumbnail :: "(nat \<Rightarrow> bool) \<Rightarrow> node list \<Rightarrow> int \<Rightarrow> ustr option" where
  "page_thumbnail alnum soup min_width =
     (case sized_link alnum (find_all (all_nodes soup) [str ''a''] None) min_width
             candidate_sizes of
        Some u \<Rightarrow> Some u
      | None \<Rightarrow> full_image_link soup)"

definition find_larger_thumbnail :: "'w env \<Rightarrow> 'w \<Rightarrow> ustr \<Rightarrow> int \<Rightarrow> ustr option \<times> 'w" where
  "find_larger_thumbnail E w page_url min_width =
     (case requests_get E w page_url of
        (None, w') \<Rightarrow> (None, w')
      | (Some response, w') \<Rightarrow>
          if status_code response \<noteq> 200 then (None, w')
          else (page_thumbnail (isalnum E) (html_parser E (resp_text response)) min_width, w'))"

section \<open>Image Downloader: \<^verbatim>\<open>download_thumbnail_images\<close>\<close>

text \<open>\<^verbatim>\<open>re.sub(r'[\\/*?:"<>|]', "_", filename)\<close>: each of the nine characters
  \<^verbatim>\<open>\ / * ? : " < > |\<close> becomes an underscore.\<close>

definition sanitize :: "ustr \<Rightarrow> ustr" where
  "sanitize name =
     map (\<lambda>c. if c \<in> set [92, 47, 42, 63, 58, 34, 60, 62, 124] then 95 else c) name"

text \<open>\<^verbatim>\<open>os.path.join(a, b)\<close> of \<^verbatim>\<open>posixpath\<close>.\<close>

definition os_path_join :: "ustr \<Rightarrow> ustr \<Rightarrow> ustr" where
  "os_path_join a b =
     (if startswith b (str ''/'') then b
      else if a = [] \<or> endswith a (str ''/'') then a @ b
      else a @ str ''/'' @ b)"

definition destination :: "ustr \<Rightarrow> image_info \<Rightarrow> ustr" where
  "destination folder img_info = os_path_join folder (sanitize (filename img_info))"

text \<open>
  The request for the bytes of one descriptor: the upgraded address if the upgrader found
  one (\<^verbatim>\<open>larger_thumb if larger_thumb else img_info['thumbnail_url']\<close>: an empty address
  counts as none), else the thumbnail of the descriptor.
\<close>

definition fetch_image :: "'w env \<Rightarrow> 'w \<Rightarrow> int \<Rightarrow> image_info \<Rightarrow> response option \<times> 'w" where
  "fetch_image E w min_width img_info =
     (case find_larger_thumbnail E w (file_page img_info) min_width of
        (larger_thumb, w') \<Rightarrow>
          requests_get E w'
            (case larger_thumb of
               None \<Rightarrow> thumbnail_url img_info
             | Some u \<Rightarrow> if u \<noteq> [] then u else thumbnail_url img_info))"

text \<open>
  The body of the loop for one descriptor, with both of its \<^verbatim>\<open>try\<close> blocks: the path that
  was written, if one was, and the world and the files afterwards. Every failure (an
  exception of the request, a status other than 200, bytes that do not decode, a file
  that cannot be written) leaves the files as they were.
\<close>

definition download_one ::
    "'w env \<Rightarrow> ustr \<Rightarrow> int \<Rightarrow> image_info \<Rightarrow> 'w \<times> files \<Rightarrow> ustr option \<times> 'w \<times> files" where
  "download_one E folder min_width img_info st =
     (case st of (w, fs) \<Rightarrow>
        (case fetch_image E w min_width img_info of
           (None, w') \<Rightarrow> (None, w', fs)
         | (Some response, w') \<Rightarrow>
             if status_code response = 200 then
               (if Image_open E (resp_content response) then
                  (let file_path = destination folder img_info
                   in if open_wb E w' file_path
                      then (Some file_path, w', fs(file_path \<mapsto> resp_content response))
                      else (None, w', fs))
                else (None, w', fs))
             else (None, w', fs)))"

text \<open>The loop over the descriptors; \<open>saved_images\<close> is the list of the paths written
  so far.\<close>

fun download_loop ::
    "'w env \<Rightarrow> ustr \<Rightarrow> int \<Rightarrow> image_info list \<Rightarrow> ustr list \<times> 'w \<times> files
     \<Rightarrow> ustr list \<times> 'w \<times> files" where
  "download_loop E folder min_width [] (saved_images, w, fs) = (saved_images, w, fs)"
| "download_loop E folder min_width (img_info # rest) (saved_images, w, fs) =
     (case download_one E folder min_width img_info (w, fs) of
        (None, w', fs') \<Rightarrow> download_loop E folder min_width rest (saved_images, w', fs')
      | (Some file_path, w', fs') \<Rightarrow>
          download_loop E folder min_width rest (saved_images @ [file_path], w', fs'))"

text \<open>
  \<^verbatim>\<open>
  if not os.path.exists(folder):
      os.makedirs(folder)
  \<close>
  before the loop, outside every \<^verbatim>\<open>try\<close>.
\<close>

definition prepare_folder :: "'w env \<Rightarrow> 'w \<Rightarrow> ustr \<Rightarrow> 'w option" where
  "prepare_folder E w folder =
     (if \<not> os_path_exists E w folder then os_makedirs E w folder else Some w)"

definition download_thumbnail_images ::
    "'w env \<Rightarrow> image_info list \<Rightarrow> ustr \<Rightarrow> int \<Rightarrow> 'w \<times> files
     \<Rightarrow> py_error + ustr list \<times> 'w \<times> files" where
  "download_thumbnail_images E images_list folder min_width st =
     (case st of (w, fs) \<Rightarrow>
        (case prepare_folder E w folder of
           None \<Rightarrow> Inl OSError
         | Some w' \<Rightarrow> Inr (download_loop E folder min_width images_list ([], w', fs))))"

text \<open>
  The outcome of every descriptor of a batch, in order: the path it wrote, or \<open>None\<close> when
  it failed.
\<close>

fun outcomes :: "'w env \<Rightarrow> ustr \<Rightarrow> int \<Rightarrow> image_info list \<Rightarrow> 'w \<times> files \<Rightarrow> ustr option list" where
  "outcomes E folder min_width [] st = []"
| "outcomes E folder min_width (img_info # rest) st =
     (case download_one E folder min_width img_info st of
        (result, st') \<Rightarrow> result # outcomes E folder min_width rest st')"

text \<open>The paths of the descriptors that succeeded.\<close>

definition successes :: "ustr option list \<Rightarrow> ustr list" where
  "successes results = concat (map (\<lambda>r. case r of None \<Rightarrow> [] | Some file_path \<Rightarrow> [file_path]) results)"

section \<open>An example world\<close>

text \<open>
  A small world without state for the examples of the image path. The category of
  "Moon" has a gallery of three files; the category of "Gravity" answers 404; the
  category of "Apple" redirects to a search page; the category of "Void" has no image.
  Every media search finds one file. The parser is given by the trees of these pages.
\<close>

definition gallery_box :: "ustr \<Rightarrow> node" where
  "gallery_box name =
     Tag (str ''li'') [str ''gallerybox''] []
       [Tag (str ''a'') [str ''image''] [(str ''href'', str ''/wiki/File:'' @ name)]
          [Tag (str ''img'') [] [(str ''src'', str ''//upload.wikimedia.org/thumb/'' @ name)] []]]"

definition gallery_soup :: "node list" where
  "gallery_soup =
     [Tag (str ''ul'') [str ''gallery''] []
        [gallery_box (str ''Moon_1.jpg''), gallery_box (str ''Moon_2.jpg''),
         gallery_box (str ''Moon_3.jpg'')]]"

definition search_soup :: "node list" where
  "search_soup =
     [Tag (str ''a'') [str ''sdms-image-result'']
        [(str ''href'', str ''https://commons.wikimedia.org/wiki/File:Apple.jpg'')]
        [Tag (str ''img'') [] [(str ''src'', str ''https://upload.wikimedia.org/thumb/Apple.jpg'')]
           []]]"

definition apple_image :: image_info where
  "apple_image =
     \<lparr>filename = str ''File:Apple.jpg'',
      thumbnail_url = str ''https://upload.wikimedia.org/thumb/Apple.jpg'',
      file_page = str ''https://commons.wikimedia.org/wiki/File:Apple.jpg''\<rparr>"

definition moon_image :: "ustr \<Rightarrow> image_info" where
  "moon_image name =
     \<lparr>filename = str ''File:'' @ name,
      thumbnail_url = str ''https://upload.wikimedia.org/thumb/'' @ name,
      file_page = str ''https://commons.wikimedia.org/wiki/File:'' @ name\<rparr>"

text \<open>The three detail pages: an anchor for a rendition of 600 by 450 pixels and the
  full-image link; the anchor alone; and an anchor for a rendition of 600 by 800 pixels.\<close>

definition size_anchor :: "ustr \<Rightarrow> ustr \<Rightarrow> node" where
  "size_anchor href label = Tag (str ''a'') [] [(str ''href'', href)] [NavigableString label]"

definition small_anchor :: node where
  "small_anchor =
     size_anchor (str ''//upload.wikimedia.org/thumb/Moon_1.jpg/600px-Moon_1.jpg'')
       (str ''600 '' @ [215] @ str '' 450 pixels'')"

definition portrait_anchor :: node where
  "portrait_anchor =
     size_anchor (str ''//upload.wikimedia.org/thumb/Moon_3.jpg/600px-Moon_3.jpg'')
       (str ''600 '' @ [215] @ str '' 800 pixels'')"

definition full_image_div :: node where
  "full_image_div =
     Tag (str ''div'') [str ''fullImageLink''] []
       [Tag (str ''a'') [] [(str ''href'', str ''//upload.wikimedia.org/Moon_1.jpg'')]
          [Tag (str ''img'') [] [(str ''src'', str ''//upload.wikimedia.org/Moon_1.jpg'')] []]]"

definition moon_get :: "ustr \<Rightarrow> response option" where
  "moon_get url =
     (if url = str ''https://commons.wikimedia.org/wiki/Category:Moon'' then
        Some \<lparr>resp_url = url, status_code = 200, resp_text = str ''gallery'', resp_content = []\<rparr>
      else if url = str ''https://commons.wikimedia.org/wiki/Category:Gravity'' then
        Some \<lparr>resp_url = url, status_code = 404, resp_text = [], resp_content = []\<rparr>
      else if url = str ''https://commons.wikimedia.org/wiki/Category:Apple'' then
        Some \<lparr>resp_url = str ''https://commons.wikimedia.org/w/index.php?search=Apple&title=Special:Search'',
              status_code = 200, resp_text = str ''results'', resp_content = []\<rparr>
      else if url = str ''https://commons.wikimedia.org/wiki/Category:Void'' then
        Some \<lparr>resp_url = url, status_code = 200, resp_text = [], resp_content = []\<rparr>
      else if startswith url (str ''https://commons.wikimedia.org/w/index.php?search='') then
        Some \<lparr>resp_url = url, status_code = 200, resp_text = str ''results'', resp_content = []\<rparr>
      else if url = str ''https://commons.wikimedia.org/wiki/File:Moon_1.jpg'' then
        Some \<lparr>resp_url = url, status_code = 200, resp_text = str ''detail 1'', resp_content = []\<rparr>
      else if url = str ''https://commons.wikimedia.org/wiki/File:Moon_2.jpg'' then
        Some \<lparr>resp_url = url, status_code = 200, resp_text = str ''detail 2'', resp_content = []\<rparr>
      else if url = str ''https://commons.wikimedia.org/wiki/File:Moon_3.jpg'' then
        Some \<lparr>resp_url = url, status_code = 200, resp_text = str ''detail 3'', resp_content = []\<rparr>
      else if url = str ''https://upload.wikimedia.org/thumb/A.jpg'' then
        Some \<lparr>resp_url = url, status_code = 200, resp_text = [], resp_content = [255, 216, 1]\<rparr>
      else if url = str ''https://upload.wikimedia.org/thumb/B.jpg'' then
        Some \<lparr>resp_url = url, status_code = 200, resp_text = [], resp_content = [255, 216, 2]\<rparr>
      else if url = str ''https://upload.wikimedia.org/thumb/broken.jpg'' then
        Some \<lparr>resp_url = url, status_code = 200, resp_text = [], resp_content = [0, 0]\<rparr>
      else if url = str ''https://upload.wikimedia.org/thumb/gone.jpg'' then
        Some \<lparr>resp_url = url, status_code = 404, resp_text = [], resp_content = []\<rparr>
      else if url = str ''https://upload.wikimedia.org/Moon_1.jpg'' then
        Some \<lparr>resp_url = url, status_code = 200, resp_text = [], resp_content = [255, 216, 9]\<rparr>
      else if url = str ''https://upload.wikimedia.org/thumb/Moon_1.jpg'' then
        Some \<lparr>resp_url = url, status_code = 200, resp_text = [], resp_content = [255, 216, 7]\<rparr>
      else None)"

text \<open>The bodies of the pages stand for their markup, and the parser maps each to its
  tree.\<close>

definition moon_parser :: parser where
  "moon_parser markup =
     (if markup = str ''gallery'' then gallery_soup
      else if markup = str ''results'' then search_soup
      else if markup = str ''detail 1'' then [small_anchor, full_image_div]
      else if markup = str ''detail 2'' then [small_anchor]
      else if markup = str ''detail 3'' then [portrait_anchor]
      else if markup = [] then []
      else [NavigableString markup])"

definition moon_env :: "unit env" where
  "moon_env =
     \<lparr>requests_get = (\<lambda>w url. (moon_get url, w)),
      html_parser = moon_parser,
      isalnum = (\<lambda>c. False),
      Image_open = (\<lambda>content. take 2 content = [255, 216]),
      os_path_exists = (\<lambda>w folder. True),
      os_makedirs = (\<lambda>w folder. Some w),
      open_wb = (\<lambda>w path. True)\<rparr>"

text \<open>
  A batch for the downloader: two files whose names differ only in a character that is
  not allowed in a file name, and between them a file whose bytes are no image and a file
  that the server does not have. None of their detail pages can be fetched.
\<close>

definition image_a :: image_info where
  "image_a =
     \<lparr>filename = str ''File:Moon?.jpg'',
      thumbnail_url = str ''https://upload.wikimedia.org/thumb/A.jpg'',
      file_page = str ''https://commons.wikimedia.org/wiki/File:Moon%3F.jpg''\<rparr>"

definition image_b :: image_info where
  "image_b =
     \<lparr>filename = str ''File:Moon*.jpg'',
      thumbnail_url = str ''https://upload.wikimedia.org/thumb/B.jpg'',
      file_page = str ''https://commons.wikimedia.org/wiki/File:Moon*.jpg''\<rparr>"

definition image_broken :: image_info where
  "image_broken =
     \<lparr>filename = str ''File:Broken.jpg'',
      thumbnail_url = str ''https://upload.wikimedia.org/thumb/broken.jpg'',
      file_page = str ''https://commons.wikimedia.org/wiki/File:Broken.jpg''\<rparr>"

definition image_gone :: image_info where
  "image_gone =
     \<lparr>filename = str ''File:Gone.jpg'',
      thumbnail_url = str ''https://upload.wikimedia.org/thumb/gone.jpg'',
      file_page = str ''https://commons.wikimedia.org/wiki/File:Gone.jpg''\<rparr>"

definition moon_path :: ustr where
  "moon_path = str ''wiki_images/File_Moon_.jpg''"

section \<open>Properties of the Title Resolver\<close>

subsection \<open>Splitting, first occurrences and decoding\<close>

lemma str_split_from_first:
  "sep \<noteq> [] \<Longrightarrow> str_split_from sep acc s =
     (acc @ before_first sep s) #
       (case after_first sep s of None \<Rightarrow> [] | Some r \<Rightarrow> str_split_from sep [] r)"
proof (induction s arbitrary: acc)
  case Nil
  then show ?case by simp
next
  case (Cons c cs)
  show ?case
  proof (cases "startswith (c # cs) sep")
    case True
    have "drop (length sep) (c # cs) = drop (length sep - 1) cs"
      using Cons.prems by (cases sep) auto
    with True Cons.prems show ?thesis by simp
  next
    case False
    with Cons show ?thesis by simp
  qed
qed

lemma str_split_from_nonempty: "str_split_from sep acc s \<noteq> []"
  by (induction s arbitrary: acc) auto

lemma str_contains_after_first:
  "sep \<noteq> [] \<Longrightarrow> str_contains sep s \<longleftrightarrow> after_first sep s \<noteq> None"
  by (induction s) auto

lemma before_first_absent: "sep \<noteq> [] \<Longrightarrow> \<not> str_contains sep s \<Longrightarrow> before_first sep s = s"
  by (induction s) auto

lemma before_first_single: "before_first [d] s = takeWhile (\<lambda>c. c \<noteq> d) s"
  by (induction s) auto

lemma takeWhile_twice: "takeWhile Q (takeWhile P s) = takeWhile (\<lambda>c. P c \<and> Q c) s"
  by (induction s) auto

lemma str_replace_single: "str_replace s [a] [b] = map (\<lambda>c. if c = a then b else c) s"
  by (induction s) auto

lemma getitem_first: "getitem (x # xs) 0 = Inr x"
  by (simp add: getitem_def)

lemma getitem_second: "getitem (x # y # xs) 1 = Inr y"
  by (simp add: getitem_def)

lemma getitem_split_single:
  "getitem (str_split s [d]) 0 = Inr (takeWhile (\<lambda>c. c \<noteq> d) s)"
  by (simp add: str_split_def str_split_from_first [of "[d]" "[]" s] getitem_first
      before_first_single)

lemma wiki_marker_nonempty: "wiki_marker \<noteq> []"
  by (simp add: wiki_marker_def)

text \<open>The three index operations of the resolver never raise, and its result is the
  decoded segment between the first marker and the next marker, delimiter or end.\<close>

lemma extract_wiki_title_segment: "extract_wiki_title url = Inr (segment_title url)"
proof (cases "after_first wiki_marker url")
  case None
  then show ?thesis
    by (simp add: extract_wiki_title_def segment_title_def
        str_contains_after_first [OF wiki_marker_nonempty])
next
  case (Some rest)
  obtain ys where "str_split_from wiki_marker [] rest = before_first wiki_marker rest # ys"
    using str_split_from_first [OF wiki_marker_nonempty, of "[]" rest] by simp
  then have piece: "getitem (str_split url wiki_marker) 1 = Inr (before_first wiki_marker rest)"
    using Some
    by (simp add: str_split_def str_split_from_first [OF wiki_marker_nonempty, of "[]" url]
        getitem_second)
  show ?thesis
    using Some
    by (simp add: extract_wiki_title_def segment_title_def piece getitem_split_single
        str_contains_after_first [OF wiki_marker_nonempty]
        until_delimiter_def decode_title_def takeWhile_twice str_replace_single)
qed

lemma unquote_to_bytes_Nil: "unquote_to_bytes s = [] \<longleftrightarrow> s = []"
  by (induction s rule: unquote_to_bytes.induct) auto

lemma utf8_decode_Nil: "utf8_decode bs = [] \<longleftrightarrow> bs = []"
  by (cases bs) auto

lemma unquote_runs_Nil: "unquote_runs run s = [] \<longleftrightarrow> run = [] \<and> s = []"
  by (induction s arbitrary: run) (auto simp: utf8_decode_Nil unquote_to_bytes_Nil)

lemma unquote_Nil: "unquote s = [] \<longleftrightarrow> s = []"
  by (auto simp: unquote_def unquote_runs_Nil)

lemma decode_title_Nil: "decode_title s = [] \<longleftrightarrow> s = []"
  by (simp add: decode_title_def unquote_Nil)

subsection \<open>C6: a title for every URL with the marker\<close>

text \<open>
  C6, as stated, asks for a non-empty title whenever the URL contains \<^verbatim>\<open>/wiki/\<close>. A URL
  that ends with the marker contains it, and the resolver returns the empty title.
\<close>

theorem title_empty_counterexample:
  "str_contains wiki_marker (str ''https://en.wikipedia.org/wiki/'')
   \<and> extract_wiki_title (str ''https://en.wikipedia.org/wiki/'') = Inr (Some [])"
  by (simp add: extract_wiki_title_def wiki_marker_def str_split_def getitem_def unquote_def)

text \<open>
  C6, amended: for every URL that contains the marker the resolver returns a title, and
  the title is empty exactly when the text between the first marker and the next \<^verbatim>\<open>#\<close>,
  \<^verbatim>\<open>?\<close>, further marker or end of the URL is empty; for every URL without the marker the
  resolver returns no title.
\<close>

theorem title_iff_marker:
  "(str_contains wiki_marker url \<longrightarrow>
      (\<exists>rest t. after_first wiki_marker url = Some rest
         \<and> extract_wiki_title url = Inr (Some t)
         \<and> (t = [] \<longleftrightarrow> until_delimiter (before_first wiki_marker rest) = [])))
   \<and> (\<not> str_contains wiki_marker url \<longrightarrow> extract_wiki_title url = Inr None)"
proof (cases "after_first wiki_marker url")
  case None
  then show ?thesis
    by (simp add: extract_wiki_title_segment segment_title_def
        str_contains_after_first [OF wiki_marker_nonempty])
next
  case (Some rest)
  then show ?thesis
    by (simp add: extract_wiki_title_segment segment_title_def decode_title_Nil
        str_contains_after_first [OF wiki_marker_nonempty])
qed

theorem title_iff_marker_witness:
  "str_contains wiki_marker (str ''https://en.wikipedia.org/wiki/Gravity'')
   \<and> extract_wiki_title (str ''https://en.wikipedia.org/wiki/Gravity'') = Inr (Some (str ''Gravity''))
   \<and> \<not> str_contains wiki_marker (str ''https://en.wikipedia.org/w/index.php'')
   \<and> extract_wiki_title (str ''https://en.wikipedia.org/w/index.php'') = Inr None"
proof -
  have a: "str_contains wiki_marker (str ''https://en.wikipedia.org/wiki/Gravity'')"
    by (simp add: wiki_marker_def)
  have b: "\<not> str_contains wiki_marker (str ''https://en.wikipedia.org/w/index.php'')"
    by (simp add: wiki_marker_def)
  have "extract_wiki_title (str ''https://en.wikipedia.org/wiki/Gravity'')
      = Inr (Some (str ''Gravity''))"
    by (simp add: extract_wiki_title_def wiki_marker_def str_split_def getitem_def unquote_def)
  moreover have "extract_wiki_title (str ''https://en.wikipedia.org/w/index.php'') = Inr None"
    using title_iff_marker [of "str ''https://en.wikipedia.org/w/index.php''"] b by blast
  ultimately show ?thesis
    using a b title_iff_marker [of "str ''https://en.wikipedia.org/wiki/Gravity''"] by blast
qed

subsection \<open>C8: the value of the title\<close>

text \<open>
  C8 says that for every URL with the marker the resolver returns the substring after the
  marker, truncated at the first \<^verbatim>\<open>#\<close> or \<^verbatim>\<open>?\<close>, percent-decoded, with underscores replaced by
  spaces, which is the page title that the docstring of the function promises. The code
  takes \<^verbatim>\<open>split('/wiki/')[1]\<close>, the piece between the first and the second marker, so it
  loses the rest of a title that contains the marker: for
  \<^verbatim>\<open>https://en.wikipedia.org/wiki/A/wiki/B\<close> the claim gives the title \<^verbatim>\<open>A/wiki/B\<close> of the page,
  and the code returns \<^verbatim>\<open>A\<close>.
\<close>

theorem title_second_marker_divergence:
  "extract_wiki_title (str ''https://en.wikipedia.org/wiki/A/wiki/B'') = Inr (Some (str ''A''))
   \<and> spec_title (str ''https://en.wikipedia.org/wiki/A/wiki/B'') = Some (str ''A/wiki/B'')"
  by (simp add: extract_wiki_title_def spec_title_def wiki_marker_def str_split_def getitem_def
      unquote_def until_delimiter_def decode_title_def)

text \<open>
  On every other URL the code and the specification agree: where the marker does not
  occur again after its first occurrence, the result is the title of the specification,
  and there is no title exactly when the URL lacks the marker.
\<close>

lemma title_agrees_without_repeat:
  "\<not> marker_repeats url \<Longrightarrow>
     extract_wiki_title url = Inr (spec_title url)
     \<and> (spec_title url = None \<longleftrightarrow> \<not> str_contains wiki_marker url)"
proof (cases "after_first wiki_marker url")
  case None
  then show ?thesis
    by (simp add: extract_wiki_title_segment segment_title_def spec_title_def
        str_contains_after_first [OF wiki_marker_nonempty])
next
  case (Some rest)
  assume "\<not> marker_repeats url"
  with Some have "before_first wiki_marker rest = rest"
    by (simp add: marker_repeats_def before_first_absent [OF wiki_marker_nonempty])
  with Some show ?thesis
    by (simp add: extract_wiki_title_segment segment_title_def spec_title_def
        str_contains_after_first [OF wiki_marker_nonempty])
qed

lemma title_agrees_example:
  "\<not> marker_repeats (str ''https://en.wikipedia.org/wiki/C%2B%2B_(language)?action=raw#top'')
   \<and> extract_wiki_title (str ''https://en.wikipedia.org/wiki/C%2B%2B_(language)?action=raw#top'')
       = Inr (Some (str ''C++ (language)''))"
proof -
  have a: "\<not> marker_repeats (str ''https://en.wikipedia.org/wiki/C%2B%2B_(language)?action=raw#top'')"
    by (simp add: marker_repeats_def wiki_marker_def)
  have "spec_title (str ''https://en.wikipedia.org/wiki/C%2B%2B_(language)?action=raw#top'')
      = Some (str ''C++ (language)'')"
    by (simp add: spec_title_def wiki_marker_def until_delimiter_def decode_title_def
        unquote_def utf8_step_def is_hexdig_def hexval_def)
  with a title_agrees_without_repeat [OF a] show ?thesis by simp
qed

section \<open>Properties of the Content Renderer\<close>

subsection \<open>Trimming and the shape of the result\<close>

lemma dropWhile_snoc: "\<not> P c \<Longrightarrow> dropWhile P (xs @ [c]) = dropWhile P xs @ [c]"
  by (induction xs) auto

lemma str_strip_keeps_first:
  "\<not> isspace c \<Longrightarrow> str_strip (c # s) = c # rev (dropWhile isspace (rev s))"
  by (simp add: str_strip_def dropWhile_snoc)

lemma process_wiki_content_markup:
  "api_text d = Some (Some html_content) \<Longrightarrow>
     process_wiki_content BeautifulSoup (Some d) =
       (str_strip (plain_text (decompose_all unwanted_classes (BeautifulSoup html_content))
                     (BeautifulSoup (display_title d)) d),
        Some html_content)"
  by (simp add: process_wiki_content_def)

lemma rendered_text_not_failure: "str_strip (plain_text soup title_soup d) \<noteq> failure_text"
proof -
  have "\<not> isspace 35" by (simp add: isspace_def)
  then show ?thesis
    by (simp add: plain_text_def str_strip_keeps_first failure_text_def)
qed

subsection \<open>C5: the placeholder\<close>

text \<open>
  C5, as stated, promises the placeholder for markup that is empty as well as for markup
  that is absent. The renderer tests only whether the entries \<^verbatim>\<open>'text'\<close> and \<^verbatim>\<open>'*'\<close> exist:
  a tree whose markup is the empty string is rendered (here to the title line alone), and
  the empty markup comes back as the secondary output.
\<close>

lemma example_parser_plain:
  "markup \<noteq> [] \<Longrightarrow> markup \<noteq> gravity_markup \<Longrightarrow> markup \<noteq> nested_list_markup \<Longrightarrow>
     example_parser markup = [NavigableString markup]"
  by (simp add: example_parser_def)

lemma example_parser_empty: "example_parser [] = []"
  by (simp add: example_parser_def gravity_markup_def nested_list_markup_def)

lemma rendered_elements_empty: "rendered_elements (decompose_all unwanted_classes []) = []"
  by (simp add: rendered_elements_def decompose_all_def all_tags_def)

theorem empty_markup_counterexample:
  "markup_of (Some empty_markup_tree) = Some []
   \<and> process_wiki_content example_parser (Some empty_markup_tree) = (str ''# Untitled'', Some [])"
proof -
  have t: "example_parser (str ''Untitled'') = [NavigableString (str ''Untitled'')]"
    by (rule example_parser_plain) (simp_all add: gravity_markup_def nested_list_markup_def)
  have d: "display_title empty_markup_tree = str ''Untitled''"
    by (simp add: display_title_def empty_markup_tree_def)
  have m: "render_metadata empty_markup_tree = []"
    by (simp add: render_metadata_def empty_markup_tree_def)
  have "plain_text (decompose_all unwanted_classes (example_parser []))
          (example_parser (display_title empty_markup_tree)) empty_markup_tree
        = str ''# Untitled'' @ [10, 10]"
    using t by (simp add: plain_text_def example_parser_empty rendered_elements_empty d m)
  moreover have "str_strip (str ''# Untitled'' @ [10, 10]) = str ''# Untitled''"
    by (simp add: str_strip_def isspace_def)
  moreover have "api_text empty_markup_tree = Some (Some [])"
    by (simp add: empty_markup_tree_def)
  ultimately show ?thesis
    by (simp add: process_wiki_content_markup markup_of_def)
qed

text \<open>
  C5, amended: for every content tree whose raw markup is absent (no tree, no entry
  \<^verbatim>\<open>'text'\<close>, or no entry \<^verbatim>\<open>'*'\<close> in it) the renderer returns exactly the placeholder and no
  secondary output; for every tree whose markup is present, the empty string included, it
  returns a rendered text other than the placeholder, and the markup as secondary output.
\<close>

theorem placeholder_iff_markup_absent:
  "(markup_of api = None \<longrightarrow>
      process_wiki_content BeautifulSoup api = (failure_text, None))
   \<and> (\<forall>html_content. markup_of api = Some html_content \<longrightarrow>
         snd (process_wiki_content BeautifulSoup api) = Some html_content
         \<and> fst (process_wiki_content BeautifulSoup api) \<noteq> failure_text)"
proof (cases api)
  case None
  then show ?thesis by (simp add: markup_of_def process_wiki_content_def)
next
  case (Some d)
  show ?thesis
  proof (cases "api_text d")
    case None
    with Some show ?thesis by (simp add: markup_of_def process_wiki_content_def)
  next
    case outer: (Some entry)
    show ?thesis
    proof (cases entry)
      case None
      with Some outer show ?thesis by (simp add: markup_of_def process_wiki_content_def)
    next
      case inner: (Some html)
      with Some outer show ?thesis
        by (simp add: markup_of_def process_wiki_content_markup rendered_text_not_failure)
    qed
  qed
qed

theorem placeholder_iff_markup_absent_witness:
  "markup_of (Some (empty_markup_tree\<lparr>api_text := None\<rparr>)) = None
   \<and> process_wiki_content example_parser (Some (empty_markup_tree\<lparr>api_text := None\<rparr>))
       = (str ''Failed to retrieve page content'', None)
   \<and> markup_of (Some gravity_tree) = Some gravity_markup
   \<and> snd (process_wiki_content example_parser (Some gravity_tree)) = Some gravity_markup
   \<and> fst (process_wiki_content example_parser (Some gravity_tree)) \<noteq> failure_text"
proof -
  have a: "markup_of (Some (empty_markup_tree\<lparr>api_text := None\<rparr>)) = None"
    by (simp add: markup_of_def)
  have b: "markup_of (Some gravity_tree) = Some gravity_markup"
    by (simp add: markup_of_def gravity_tree_def)
  show ?thesis
    using a b
      placeholder_iff_markup_absent [of "Some (empty_markup_tree\<lparr>api_text := None\<rparr>)" example_parser]
      placeholder_iff_markup_absent [of "Some gravity_tree" example_parser]
    by (simp add: failure_text_def)
qed

subsection \<open>C2: the end-to-end scenario\<close>

lemma gravity_paragraph_kept:
  "rendered_elements (decompose_all unwanted_classes [gravity_paragraph]) = [gravity_paragraph]"
  by (simp add: rendered_elements_def decompose_all_def unwanted_classes_def all_tags_def
      gravity_paragraph_def block_names_def in_unwanted_section_def)

lemma gravity_paragraph_text:
  "render_element gravity_paragraph = str ''Gravity is...'' @ [10, 10]"
  by (simp add: render_element_def gravity_paragraph_def str_strip_def isspace_def)

lemma physics_metadata:
  "api_categories d = Some [str ''Category:Physics''] \<Longrightarrow> api_externallinks d = None \<Longrightarrow>
     render_metadata d = [10] @ str ''## Categories'' @ [10] @ str ''- Physics'' @ [10]"
  by (simp add: render_metadata_def)

lemma gravity_text_trimmed:
  "str_strip (str ''# Gravity'' @ [10, 10] @ str ''Gravity is...'' @ [10, 10]
      @ [10] @ str ''## Categories'' @ [10] @ str ''- Physics'' @ [10]) = gravity_text"
  by (simp add: str_strip_def isspace_def gravity_text_def)

lemma one_paragraph_rendering:
  assumes "api_text d = Some (Some markup)"
    and "api_displaytitle d = Some (str ''Gravity'')"
    and "api_categories d = Some [str ''Category:Physics'']"
    and "api_externallinks d = None"
    and "BeautifulSoup markup = [gravity_paragraph]"
    and "BeautifulSoup (str ''Gravity'') = [NavigableString (str ''Gravity'')]"
  shows "process_wiki_content BeautifulSoup (Some d) = (gravity_text, Some markup)"
proof -
  have title: "display_title d = str ''Gravity''"
    using assms(2) by (simp add: display_title_def)
  have "plain_text (decompose_all unwanted_classes (BeautifulSoup markup))
          (BeautifulSoup (display_title d)) d
        = str ''# Gravity'' @ [10, 10] @ str ''Gravity is...'' @ [10, 10]
          @ [10] @ str ''## Categories'' @ [10] @ str ''- Physics'' @ [10]"
    using assms(6)
    by (simp add: plain_text_def title assms(5) gravity_paragraph_kept gravity_paragraph_text
        physics_metadata [OF assms(3) assms(4)])
  then show ?thesis
    using gravity_text_trimmed by (simp add: process_wiki_content_markup [OF assms(1)])
qed

lemma example_parser_gravity:
  "example_parser gravity_markup = [gravity_paragraph]
   \<and> example_parser (str ''Gravity'') = [NavigableString (str ''Gravity'')]"
  by (simp add: example_parser_def gravity_markup_def nested_list_markup_def)

text \<open>
  C2, as stated, gives the rendered text with one empty line between the paragraph and
  the category heading. The paragraph ends with two line feeds and the category section
  begins with one more, so the text of the scenario has two empty lines there.
\<close>

theorem gravity_scenario_counterexample:
  "fst (process_wiki_content example_parser (Some gravity_tree)) \<noteq> spec_gravity_text"
proof -
  have "process_wiki_content example_parser (Some gravity_tree)
      = (gravity_text, Some gravity_markup)"
    using example_parser_gravity
    by (intro one_paragraph_rendering) (simp_all add: gravity_tree_def)
  then show ?thesis
    by (simp add: gravity_text_def spec_gravity_text_def)
qed

text \<open>
  C2, amended: for a content tree with display title "Gravity", whose markup is exactly
  one paragraph with text "Gravity is...", whose category list is exactly
  ["Category:Physics"], and which has no external-link list, the plain-text output of the
  renderer is exactly "# Gravity\n\nGravity is...\n\n\n## Categories\n- Physics".
\<close>

theorem gravity_scenario:
  assumes "api_text d = Some (Some markup)"
    and "api_displaytitle d = Some (str ''Gravity'')"
    and "api_categories d = Some [str ''Category:Physics'']"
    and "api_externallinks d = None"
    and "BeautifulSoup markup = [Tag (str ''p'') [] [] [NavigableString (str ''Gravity is...'')]]"
    and "BeautifulSoup (str ''Gravity'') = [NavigableString (str ''Gravity'')]"
  shows "fst (process_wiki_content BeautifulSoup (Some d))
     = str ''# Gravity'' @ [10, 10] @ str ''Gravity is...'' @ [10, 10, 10]
       @ str ''## Categories'' @ [10] @ str ''- Physics''"
proof -
  have "BeautifulSoup markup = [gravity_paragraph]"
    using assms(5) by (simp add: gravity_paragraph_def)
  from one_paragraph_rendering [OF assms(1-4) this assms(6)]
  show ?thesis by (simp add: gravity_text_def)
qed

theorem gravity_scenario_witness:
  "api_text gravity_tree = Some (Some gravity_markup)
   \<and> api_displaytitle gravity_tree = Some (str ''Gravity'')
   \<and> api_categories gravity_tree = Some [str ''Category:Physics'']
   \<and> api_externallinks gravity_tree = None
   \<and> example_parser gravity_markup
       = [Tag (str ''p'') [] [] [NavigableString (str ''Gravity is...'')]]
   \<and> example_parser (str ''Gravity'') = [NavigableString (str ''Gravity'')]
   \<and> fst (process_wiki_content example_parser (Some gravity_tree))
       = str ''# Gravity'' @ [10, 10] @ str ''Gravity is...'' @ [10, 10, 10]
         @ str ''## Categories'' @ [10] @ str ''- Physics''"
proof -
  have f: "api_text gravity_tree = Some (Some gravity_markup)"
    "api_displaytitle gravity_tree = Some (str ''Gravity'')"
    "api_categories gravity_tree = Some [str ''Category:Physics'']"
    "api_externallinks gravity_tree = None"
    by (simp_all add: gravity_tree_def)
  have p: "example_parser gravity_markup
      = [Tag (str ''p'') [] [] [NavigableString (str ''Gravity is...'')]]"
    using example_parser_gravity by (simp add: gravity_paragraph_def)
  have t: "example_parser (str ''Gravity'') = [NavigableString (str ''Gravity'')]"
    using example_parser_gravity by simp
  from gravity_scenario [OF f p t] f p t show ?thesis by simp
qed

subsection \<open>C3: lists and the lists nested in them\<close>

lemma tags_below_trans:
  "(a, pa) \<in> set (tags_below p0 r) \<Longrightarrow> (x, px) \<in> set (tags_below pa a) \<Longrightarrow>
     (x, px) \<in> set (tags_below p0 r)"
proof (induction r arbitrary: p0)
  case (Tag n c at ch)
  show ?case
  proof (cases "(a, pa) = (Tag n c at ch, p0)")
    case True
    with Tag.prems(2) show ?thesis by simp
  next
    case False
    with Tag.prems(1) obtain child where child: "child \<in> set ch"
      and "(a, pa) \<in> set (tags_below (Tag n c at ch # p0) child)"
      by auto
    with Tag.IH Tag.prems(2) have "(x, px) \<in> set (tags_below (Tag n c at ch # p0) child)"
      by blast
    with child show ?thesis by auto
  qed
qed simp_all

lemma all_tags_below:
  "(outer, ps) \<in> set (all_tags doc) \<Longrightarrow> (inner, qs) \<in> set (tags_below ps outer) \<Longrightarrow>
     (inner, qs) \<in> set (all_tags doc)"
  by (auto simp: all_tags_def dest: tags_below_trans)

lemma block_of_member:
  "x \<in> set xs \<Longrightarrow> \<exists>before after. concat (map f xs) = before @ f x @ after"
proof -
  assume "x \<in> set xs"
  then obtain ys zs where "xs = ys @ x # zs"
    by (auto simp: in_set_conv_decomp)
  then have "concat (map f xs) = concat (map f ys) @ f x @ concat (map f zs)"
    by simp
  then show ?thesis by blast
qed

lemma is_list_rendering: "is_list element \<Longrightarrow> render_element element = render_list element"
  by (cases element) (auto simp: is_list_def render_element_def)

lemma is_list_block: "is_list element \<Longrightarrow> matches block_names None element"
  by (cases element) (auto simp: is_list_def block_names_def)

lemma list_in_rendered_elements:
  assumes "(element, parents) \<in> set (all_tags soup)"
    and "is_list element" and "\<not> in_unwanted_section parents"
  shows "element \<in> set (rendered_elements soup)"
proof -
  have "(element, parents) \<in> set (filter (\<lambda>(element, parents). \<not> in_unwanted_section parents)
          (filter (\<lambda>(element, parents). matches block_names None element) (all_tags soup)))"
    using assms by (simp add: is_list_block)
  then have "fst (element, parents)
      \<in> fst ` set (filter (\<lambda>(element, parents). \<not> in_unwanted_section parents)
          (filter (\<lambda>(element, parents). matches block_names None element) (all_tags soup)))"
    by (rule imageI)
  then show ?thesis
    by (simp add: rendered_elements_def)
qed

lemma list_block_in_plain_text:
  assumes "(element, parents) \<in> set (all_tags soup)"
    and "is_list element" and "\<not> in_unwanted_section parents"
  shows "\<exists>before after. plain_text soup title_soup d = before @ render_list element @ after"
proof -
  from block_of_member [OF list_in_rendered_elements [OF assms], of render_element]
  obtain b a where "concat (map render_element (rendered_elements soup))
      = b @ render_list element @ a"
    using assms(2) by (auto simp: is_list_rendering)
  then have "plain_text soup title_soup d
      = (str ''# '' @ concat (map get_text title_soup) @ [10, 10] @ b)
        @ render_list element @ (a @ render_metadata d)"
    by (simp add: plain_text_def)
  then show ?thesis by blast
qed

lemma nested_list_elements:
  "rendered_elements (decompose_all unwanted_classes [nested_list]) = [nested_list, inner_list]"
  by (simp add: rendered_elements_def decompose_all_def unwanted_classes_def all_tags_def
      nested_list_def outer_item_def inner_list_def block_names_def in_unwanted_section_def)

lemma nested_list_blocks:
  "render_element nested_list = str ''- ab'' @ [10, 10]
   \<and> render_element inner_list = str ''- b'' @ [10, 10]"
  by (simp add: render_element_def render_list_def find_all_def nested_list_def outer_item_def
      inner_list_def str_strip_def isspace_def)

lemma example_parser_nested:
  "example_parser nested_list_markup = [nested_list]
   \<and> example_parser (str ''Lists'') = [NavigableString (str ''Lists'')]"
  by (simp add: example_parser_def gravity_markup_def nested_list_markup_def)

text \<open>
  C3, as stated, says that the items of a nested list are not rendered as a list block
  of their own. The loop visits every list of the tree, the nested ones too: for the list
  \<^verbatim>\<open><ul><li>a<ul><li>b</li></ul></li></ul>\<close> the output has the block of the outer list,
  whose one item holds the text of everything below it, and then the block of the inner
  list.
\<close>

theorem nested_list_counterexample:
  "fst (process_wiki_content example_parser (Some nested_list_tree))
     = str ''# Lists'' @ [10, 10] @ str ''- ab'' @ [10, 10] @ str ''- b''"
proof -
  have "display_title nested_list_tree = str ''Lists''"
    "render_metadata nested_list_tree = []"
    by (simp_all add: display_title_def render_metadata_def nested_list_tree_def)
  then have "plain_text (decompose_all unwanted_classes (example_parser nested_list_markup))
          (example_parser (display_title nested_list_tree)) nested_list_tree
        = str ''# Lists'' @ [10, 10] @ str ''- ab'' @ [10, 10] @ str ''- b'' @ [10, 10]"
    using example_parser_nested
    by (simp add: plain_text_def nested_list_elements nested_list_blocks)
  moreover have "str_strip (str ''# Lists'' @ [10, 10] @ str ''- ab'' @ [10, 10]
        @ str ''- b'' @ [10, 10])
      = str ''# Lists'' @ [10, 10] @ str ''- ab'' @ [10, 10] @ str ''- b''"
    by (simp add: str_strip_def isspace_def)
  moreover have "api_text nested_list_tree = Some (Some nested_list_markup)"
    by (simp add: nested_list_tree_def)
  ultimately show ?thesis
    by (simp add: process_wiki_content_markup)
qed

lemma tags_below_decomp:
  "(x, px) \<in> set (tags_below p0 r) \<Longrightarrow>
     \<exists>pre post. tags_below p0 r
        = pre @ (x, px) # concat (map (tags_below (x # px)) (tag_contents x)) @ post"
proof (induction r arbitrary: p0)
  case (Tag n c at ch)
  show ?case
  proof (cases "(x, px) = (Tag n c at ch, p0)")
    case True
    then have "tags_below p0 (Tag n c at ch)
        = [] @ (x, px) # concat (map (tags_below (x # px)) (tag_contents x)) @ []"
      by auto
    then show ?thesis by blast
  next
    case False
    with Tag.prems obtain child where child: "child \<in> set ch"
      and below: "(x, px) \<in> set (tags_below (Tag n c at ch # p0) child)"
      by auto
    from Tag.IH [OF child below] obtain pre post where inner:
      "tags_below (Tag n c at ch # p0) child
         = pre @ (x, px) # concat (map (tags_below (x # px)) (tag_contents x)) @ post"
      by blast
    define up where "up = Tag n c at ch # p0"
    from child obtain ch1 ch2 where "ch = ch1 @ child # ch2"
      by (blast dest: split_list)
    then have "concat (map (tags_below up) ch)
        = concat (map (tags_below up) ch1) @ tags_below up child
          @ concat (map (tags_below up) ch2)"
      by simp
    then have "tags_below p0 (Tag n c at ch)
        = ((Tag n c at ch, p0) # concat (map (tags_below up) ch1) @ pre)
          @ (x, px) # concat (map (tags_below (x # px)) (tag_contents x))
          @ (post @ concat (map (tags_below up) ch2))"
      using inner by (simp add: up_def)
    then show ?thesis by blast
  qed
qed simp_all

lemma all_tags_decomp:
  assumes "(x, px) \<in> set (all_tags doc)"
  shows "\<exists>pre post. all_tags doc
        = pre @ (x, px) # concat (map (tags_below (x # px)) (tag_contents x)) @ post"
proof -
  from assms obtain root where root: "root \<in> set doc"
    and below: "(x, px) \<in> set (tags_below [] root)"
    by (auto simp: all_tags_def)
  from tags_below_decomp [OF below] obtain pre post where inner:
    "tags_below [] root
       = pre @ (x, px) # concat (map (tags_below (x # px)) (tag_contents x)) @ post"
    by blast
  from root obtain d1 d2 where "doc = d1 @ root # d2"
    by (blast dest: split_list)
  then have "all_tags doc
      = (concat (map (tags_below []) d1) @ pre)
        @ (x, px) # concat (map (tags_below (x # px)) (tag_contents x))
        @ (post @ concat (map (tags_below []) d2))"
    by (simp add: all_tags_def inner)
  then show ?thesis by blast
qed

lemma nested_tag_follows:
  assumes "(outer, ps) \<in> set (all_tags doc)"
    and "child \<in> set (tag_contents outer)"
    and "(inner, qs) \<in> set (tags_below (outer # ps) child)"
  shows "\<exists>pre mid post. all_tags doc = pre @ (outer, ps) # mid @ (inner, qs) # post"
proof -
  from all_tags_decomp [OF assms(1)] obtain pre post where whole:
    "all_tags doc
       = pre @ (outer, ps) # concat (map (tags_below (outer # ps)) (tag_contents outer)) @ post"
    by blast
  have "(inner, qs) \<in> set (concat (map (tags_below (outer # ps)) (tag_contents outer)))"
    using assms(2) assms(3) by auto
  then obtain s1 s2 where
    "concat (map (tags_below (outer # ps)) (tag_contents outer)) = s1 @ (inner, qs) # s2"
    by (blast dest: split_list)
  with whole have "all_tags doc = pre @ (outer, ps) # s1 @ (inner, qs) # (s2 @ post)"
    by simp
  then show ?thesis by blast
qed

lemma rendered_elements_order:
  assumes "all_tags soup = pre @ (outer, ps) # mid @ (inner, qs) # post"
    and "is_list outer" and "\<not> in_unwanted_section ps"
    and "is_list inner" and "\<not> in_unwanted_section qs"
  shows "\<exists>a b c. rendered_elements soup = a @ outer # b @ inner # c"
proof -
  let ?keep = "\<lambda>xs. map fst (filter (\<lambda>(element, parents). \<not> in_unwanted_section parents)
      (filter (\<lambda>(element, parents). matches block_names None element) xs))"
  have "rendered_elements soup = ?keep pre @ outer # ?keep mid @ inner # ?keep post"
    using assms by (simp add: rendered_elements_def is_list_block)
  then show ?thesis by blast
qed

lemma two_blocks_in_plain_text:
  assumes "rendered_elements soup = a @ outer # b @ inner # c"
    and "is_list outer" and "is_list inner"
  shows "\<exists>before middle after. plain_text soup title_soup d
      = before @ render_list outer @ middle @ render_list inner @ after"
proof -
  have "plain_text soup title_soup d
      = (str ''# '' @ concat (map get_text title_soup) @ [10, 10]
           @ concat (map render_element a))
        @ render_list outer @ concat (map render_element b)
        @ render_list inner @ (concat (map render_element c) @ render_metadata d)"
    using assms by (simp add: plain_text_def is_list_rendering)
  then show ?thesis by blast
qed

text \<open>
  C3, amended: for every content tree, every list element (\<^verbatim>\<open>ul\<close> or \<^verbatim>\<open>ol\<close>) that is left in
  the parsed markup once the elements of class \<^verbatim>\<open>mw-editsection\<close>, \<^verbatim>\<open>reference\<close>,
  \<^verbatim>\<open>mw-empty-elt\<close>, \<^verbatim>\<open>noprint\<close> or \<^verbatim>\<open>mbox-image\<close> have been removed with all below them,
  and that is not below a table-of-contents, sidebar or navigation-box ancestor, is
  rendered as one block of the untrimmed output, the block \<open>render_list\<close> of its direct
  child items. Every such list that lies below it, nested in one of its children, is
  rendered as a block of its own, and that block comes later in the output than the block
  of the list that contains it. In the statement, \<open>ps\<close> are the parents of \<open>outer\<close> and \<open>qs\<close>
  those of \<open>inner\<close>.
\<close>

theorem nested_lists_are_later_blocks:
  assumes "api_text d = Some (Some markup)"
    and "(outer, ps) \<in> set (all_tags (decompose_all unwanted_classes (BeautifulSoup markup)))"
    and "is_list outer" and "\<not> in_unwanted_section ps"
  shows "(\<exists>before after. fst (process_wiki_content BeautifulSoup (Some d))
            = str_strip (before @ render_list outer @ after))
     \<and> (\<forall>child inner qs.
           child \<in> set (tag_contents outer)
           \<and> (inner, qs) \<in> set (tags_below (outer # ps) child)
           \<and> is_list inner \<and> \<not> in_unwanted_section qs
         \<longrightarrow> (\<exists>before middle after. fst (process_wiki_content BeautifulSoup (Some d))
                = str_strip (before @ render_list outer @ middle @ render_list inner @ after)))"
proof (intro conjI allI impI)
  let ?soup = "decompose_all unwanted_classes (BeautifulSoup markup)"
  from list_block_in_plain_text [OF assms(2) assms(3) assms(4)]
  obtain before after where
    "plain_text ?soup (BeautifulSoup (display_title d)) d = before @ render_list outer @ after"
    by blast
  then have "fst (process_wiki_content BeautifulSoup (Some d))
      = str_strip (before @ render_list outer @ after)"
    by (simp only: process_wiki_content_markup [OF assms(1)] fst_conv)
  then show "\<exists>before after. fst (process_wiki_content BeautifulSoup (Some d))
      = str_strip (before @ render_list outer @ after)"
    by blast
next
  fix child inner qs
  let ?soup = "decompose_all unwanted_classes (BeautifulSoup markup)"
  assume nested: "child \<in> set (tag_contents outer)
      \<and> (inner, qs) \<in> set (tags_below (outer # ps) child)
      \<and> is_list inner \<and> \<not> in_unwanted_section qs"
  then obtain pre mid post where
    "all_tags ?soup = pre @ (outer, ps) # mid @ (inner, qs) # post"
    using nested_tag_follows [OF assms(2), of child inner qs] by blast
  from rendered_elements_order [OF this assms(3) assms(4)] nested
  obtain a b c where "rendered_elements ?soup = a @ outer # b @ inner # c"
    by blast
  from two_blocks_in_plain_text [OF this assms(3)] nested
  obtain before middle after where
    "plain_text ?soup (BeautifulSoup (display_title d)) d
       = before @ render_list outer @ middle @ render_list inner @ after"
    by blast
  then have "fst (process_wiki_content BeautifulSoup (Some d))
      = str_strip (before @ render_list outer @ middle @ render_list inner @ after)"
    by (simp only: process_wiki_content_markup [OF assms(1)] fst_conv)
  then show "\<exists>before middle after. fst (process_wiki_content BeautifulSoup (Some d))
      = str_strip (before @ render_list outer @ middle @ render_list inner @ after)"
    by blast
qed

theorem nested_lists_are_later_blocks_witness:
  "api_text nested_list_tree = Some (Some nested_list_markup)
   \<and> (nested_list, []) \<in> set (all_tags (decompose_all unwanted_classes
         (example_parser nested_list_markup)))
   \<and> is_list nested_list \<and> \<not> in_unwanted_section []
   \<and> outer_item \<in> set (tag_contents nested_list)
   \<and> (inner_list, [outer_item, nested_list]) \<in> set (tags_below [nested_list] outer_item)
   \<and> is_list inner_list \<and> \<not> in_unwanted_section [outer_item, nested_list]
   \<and> render_list nested_list = str ''- ab'' @ [10, 10]
   \<and> render_list inner_list = str ''- b'' @ [10, 10]
   \<and> (\<exists>before after. fst (process_wiki_content example_parser (Some nested_list_tree))
         = str_strip (before @ render_list nested_list @ after))
   \<and> (\<exists>before middle after. fst (process_wiki_content example_parser (Some nested_list_tree))
         = str_strip (before @ render_list nested_list @ middle @ render_list inner_list @ after))"
proof -
  have a: "api_text nested_list_tree = Some (Some nested_list_markup)"
    by (simp add: nested_list_tree_def)
  have b: "(nested_list, []) \<in> set (all_tags (decompose_all unwanted_classes
      (example_parser nested_list_markup)))"
    using example_parser_nested
    by (simp add: all_tags_def decompose_all_def unwanted_classes_def nested_list_def
        outer_item_def inner_list_def)
  have c: "is_list nested_list" "is_list inner_list"
    by (simp_all add: is_list_def nested_list_def inner_list_def)
  have e: "\<not> in_unwanted_section []" "\<not> in_unwanted_section [outer_item, nested_list]"
    by (simp_all add: in_unwanted_section_def nested_list_def outer_item_def)
  have f: "outer_item \<in> set (tag_contents nested_list)"
    by (simp add: nested_list_def)
  have g: "(inner_list, [outer_item, nested_list]) \<in> set (tags_below [nested_list] outer_item)"
    by (simp add: outer_item_def inner_list_def)
  have r: "render_list nested_list = str ''- ab'' @ [10, 10]"
    "render_list inner_list = str ''- b'' @ [10, 10]"
    using nested_list_blocks c by (simp_all add: is_list_rendering [symmetric])
  note w = nested_lists_are_later_blocks
      [where BeautifulSoup = example_parser and markup = nested_list_markup,
       OF a b c(1) e(1)]
  from w have one: "\<exists>before after.
      fst (process_wiki_content example_parser (Some nested_list_tree))
        = str_strip (before @ render_list nested_list @ after)"
    by (rule conjunct1)
  from w f g c(2) e(2) have two: "\<exists>before middle after.
      fst (process_wiki_content example_parser (Some nested_list_tree))
        = str_strip (before @ render_list nested_list @ middle @ render_list inner_list @ after)"
    by blast
  from a b c e f g r one two show ?thesis
    by blast
qed

section \<open>Properties of the Image Locator\<close>

subsection \<open>The scanning loops stop at the maximum\<close>

lemma scan_bounded:
  "count = int (length images) \<Longrightarrow> length images \<le> nat max_images \<Longrightarrow>
     snd (scan item max_images xs (images, count))
       = int (length (fst (scan item max_images xs (images, count))))
     \<and> length (fst (scan item max_images xs (images, count))) \<le> nat max_images"
proof (induction xs arbitrary: images count)
  case Nil
  then show ?case by simp
next
  case (Cons x xs)
  show ?case
  proof (cases "count \<ge> max_images")
    case True
    with Cons.prems show ?thesis by simp
  next
    case False
    show ?thesis
    proof (cases "item x")
      case None
      with False Cons show ?thesis by simp
    next
      case (Some found)
      have "count + 1 = int (length (images @ [found]))"
        using Cons.prems by simp
      moreover have "length (images @ [found]) \<le> nat max_images"
        using Cons.prems False by simp
      ultimately show ?thesis
        using Cons.IH [of "count + 1" "images @ [found]"] False Some by simp
    qed
  qed
qed

lemma category_page_images_bounded:
  "length (category_page_images soup max_images) \<le> nat max_images"
proof -
  define first where "first =
    (case find (all_nodes soup) [str ''ul''] (Some (str ''gallery'')) of
       None \<Rightarrow> ([], 0)
     | Some gallery \<Rightarrow>
         scan box_image max_images
           (find_all (descendants gallery) [str ''li''] (Some (str ''gallerybox'')))
           ([], 0))"
  have f: "snd first = int (length (fst first)) \<and> length (fst first) \<le> nat max_images"
    unfolding first_def using scan_bounded [of 0 "[]" max_images box_image]
    by (auto split: option.splits)
  show ?thesis
    using f scan_bounded [of "snd first" "fst first" max_images box_image]
    unfolding category_page_images_def first_def [symmetric]
    by (cases first) (simp del: scan.simps)
qed

lemma search_page_images_bounded:
  "length (search_page_images soup max_images) \<le> nat max_images"
proof -
  define first where "first = scan result_image max_images
      (find_all (all_nodes soup) [str ''a''] (Some (str ''sdms-image-result''))) ([], 0)"
  have f: "snd first = int (length (fst first)) \<and> length (fst first) \<le> nat max_images"
    unfolding first_def using scan_bounded [of 0 "[]" max_images result_image] by simp
  show ?thesis
    using f scan_bounded [of 0 "[]" max_images block_image]
    unfolding search_page_images_def first_def [symmetric]
    by (cases first) (auto simp del: scan.simps)
qed

lemma tier2_bounded:
  "fst (get_commons_file_namespace E w page_name max_images) = Inr images \<Longrightarrow>
     length images \<le> nat max_images"
  by (auto simp: get_commons_file_namespace_def search_page_images_bounded
      split: option.splits prod.splits if_splits)

lemma tier2_in_try_bounded:
  "length (fst (tier2_in_try E w page_name max_images)) \<le> nat max_images"
  using tier2_bounded [of E w page_name max_images]
  by (auto simp: tier2_in_try_def split: prod.splits sum.splits)

lemma tier1_bounded:
  "length (fst (get_commons_category_images E w page_name max_images)) \<le> nat max_images"
  by (auto simp: get_commons_category_images_def Let_def tier2_in_try_bounded
      category_page_images_bounded split: option.splits prod.splits)

subsection \<open>The example world, evaluated\<close>

lemma moon_requests:
  "requests_get moon_env w url = (moon_get url, w)"
  "html_parser moon_env = moon_parser"
  by (simp_all add: moon_env_def)

lemma gravity_category_response:
  "moon_get (commons_url (str ''Gravity''))
     = Some \<lparr>resp_url = str ''https://commons.wikimedia.org/wiki/Category:Gravity'',
             status_code = 404, resp_text = [], resp_content = []\<rparr>"
  by (simp add: commons_url_def moon_get_def)

lemma apple_category_response:
  "moon_get (commons_url (str ''Apple''))
     = Some \<lparr>resp_url = str ''https://commons.wikimedia.org/w/index.php?search=Apple&title=Special:Search'',
             status_code = 200, resp_text = str ''results'', resp_content = []\<rparr>"
  by (simp add: commons_url_def moon_get_def)

lemma void_category_response:
  "moon_get (commons_url (str ''Void''))
     = Some \<lparr>resp_url = str ''https://commons.wikimedia.org/wiki/Category:Void'',
             status_code = 200, resp_text = [], resp_content = []\<rparr>"
  by (simp add: commons_url_def moon_get_def)

lemma moon_category_response:
  "moon_get (commons_url (str ''Moon''))
     = Some \<lparr>resp_url = str ''https://commons.wikimedia.org/wiki/Category:Moon'',
             status_code = 200, resp_text = str ''gallery'', resp_content = []\<rparr>"
  by (simp add: commons_url_def moon_get_def)

lemma quote_plain_names:
  "quote (str ''Gravity'') = Some (str ''Gravity'')"
  "quote (str ''Apple'') = Some (str ''Apple'')"
  "quote (str ''Void'') = Some (str ''Void'')"
  by (simp_all add: utf8_encode_def quote_safe_def ascii_alnum_def)

lemma search_response:
  "moon_get (search_url (str ''Gravity'')) = Some \<lparr>resp_url = search_url (str ''Gravity''),
      status_code = 200, resp_text = str ''results'', resp_content = []\<rparr>"
  "moon_get (search_url (str ''Apple'')) = Some \<lparr>resp_url = search_url (str ''Apple''),
      status_code = 200, resp_text = str ''results'', resp_content = []\<rparr>"
  "moon_get (search_url (str ''Void'')) = Some \<lparr>resp_url = search_url (str ''Void''),
      status_code = 200, resp_text = str ''results'', resp_content = []\<rparr>"
  by (simp_all add: search_url_def moon_get_def)

lemma moon_parser_pages:
  "moon_parser (str ''results'') = search_soup"
  "moon_parser (str ''gallery'') = gallery_soup"
  "moon_parser [] = []"
  by (simp_all add: moon_parser_def)

lemma apple_file_name:
  "unquote (last (str_split (str ''https://commons.wikimedia.org/wiki/File:Apple.jpg'') (str ''/'')))
     = str ''File:Apple.jpg''"
  by (simp add: str_split_def unquote_def)

lemma search_soup_images: "search_page_images search_soup 5 = [apple_image]"
  using apple_file_name
  by (simp add: search_page_images_def search_soup_def all_nodes_def find_all_def find_def
      result_image_def attr_def make_image_def apple_image_def)

lemma no_images_in_empty_page: "category_page_images [] 5 = []"
  by (simp add: category_page_images_def all_nodes_def find_all_def find_def)

lemma tier2_finds_apple:
  "get_commons_file_namespace moon_env () (str ''Gravity'') 5 = (Inr [apple_image], ())"
  "get_commons_file_namespace moon_env () (str ''Apple'') 5 = (Inr [apple_image], ())"
  "get_commons_file_namespace moon_env () (str ''Void'') 5 = (Inr [apple_image], ())"
  using quote_plain_names search_response moon_parser_pages
  by (simp_all add: get_commons_file_namespace_def moon_requests search_soup_images
      del: quote.simps)

lemma tier1_cases:
  assumes "requests_get E w (commons_url page_name) = (Some response, w')"
  shows "get_commons_category_images E w page_name max_images =
     (if str_contains (str ''Special:Search'') (resp_url response)
      then tier2_in_try E w' page_name max_images
      else if status_code response \<noteq> 200 then ([], w')
      else if category_page_images (html_parser E (resp_text response)) max_images = []
      then tier2_in_try E w' page_name max_images
      else (category_page_images (html_parser E (resp_text response)) max_images, w'))"
  using assms by (simp add: get_commons_category_images_def Let_def)

lemma moon_file_names:
  "unquote (last (str_split (str ''https://commons.wikimedia.org/wiki/File:Moon_1.jpg'') (str ''/'')))
     = str ''File:Moon_1.jpg''"
  "unquote (last (str_split (str ''https://commons.wikimedia.org/wiki/File:Moon_2.jpg'') (str ''/'')))
     = str ''File:Moon_2.jpg''"
  by (simp_all add: str_split_def unquote_def)

lemma moon_boxes:
  "box_image (gallery_box (str ''Moon_1.jpg'')) = Some (moon_image (str ''Moon_1.jpg''))"
  "box_image (gallery_box (str ''Moon_2.jpg'')) = Some (moon_image (str ''Moon_2.jpg''))"
  using moon_file_names
  by (simp_all add: box_image_def gallery_box_def find_def find_all_def attr_def make_image_def
      moon_image_def)

lemma gallery_boxes:
  "find (all_nodes gallery_soup) [str ''ul''] (Some (str ''gallery'')) = Some (hd gallery_soup)"
  "find_all (descendants (hd gallery_soup)) [str ''li''] (Some (str ''gallerybox''))
     = [gallery_box (str ''Moon_1.jpg''), gallery_box (str ''Moon_2.jpg''),
        gallery_box (str ''Moon_3.jpg'')]"
  by (simp_all add: gallery_soup_def all_nodes_def find_def find_all_def gallery_box_def)

lemma two_of_three_moons:
  "category_page_images gallery_soup 2
     = [moon_image (str ''Moon_1.jpg''), moon_image (str ''Moon_2.jpg'')]"
  using gallery_boxes moon_boxes
  by (simp add: category_page_images_def)

lemma moon_category_images:
  "get_commons_category_images moon_env () (str ''Moon'') 2
     = ([moon_image (str ''Moon_1.jpg''), moon_image (str ''Moon_2.jpg'')], ())"
proof -
  have "requests_get moon_env () (commons_url (str ''Moon''))
      = (Some \<lparr>resp_url = str ''https://commons.wikimedia.org/wiki/Category:Moon'',
                status_code = 200, resp_text = str ''gallery'', resp_content = []\<rparr>, ())"
    by (simp only: moon_requests moon_category_response)
  from tier1_cases [OF this, of 2] show ?thesis
    using moon_parser_pages
    by (simp add: moon_requests two_of_three_moons)
qed

subsection \<open>C7: never more than the maximum\<close>

text \<open>
  C7: for every page title and every maximum count \<open>N\<close>, the Image Locator returns at most
  \<open>N\<close> descriptors. The maximum is a Python integer: the list has at most \<open>nat N\<close>
  elements, which is \<open>N\<close> for every count \<open>N\<close> and 0 for a negative number (the list is
  empty then). The same holds for the result of Tier 2 when it is called on its own.
\<close>

theorem locator_at_most_max:
  "length (fst (get_commons_category_images E w page_name max_images)) \<le> nat max_images
   \<and> (0 \<le> max_images \<longrightarrow>
        int (length (fst (get_commons_category_images E w page_name max_images))) \<le> max_images)
   \<and> (\<forall>images. fst (get_commons_file_namespace E w page_name max_images) = Inr images
         \<longrightarrow> length images \<le> nat max_images)"
  using tier1_bounded [of E w page_name max_images] tier2_bounded [of E w page_name max_images]
  by auto

theorem locator_at_most_max_witness:
  "length (find_all (descendants (hd gallery_soup)) [str ''li''] (Some (str ''gallerybox''))) = 3
   \<and> (0::int) \<le> 2
   \<and> get_commons_category_images moon_env () (str ''Moon'') 2
       = ([moon_image (str ''Moon_1.jpg''), moon_image (str ''Moon_2.jpg'')], ())
   \<and> int (length (fst (get_commons_category_images moon_env () (str ''Moon'') 2))) \<le> 2
   \<and> fst (get_commons_file_namespace moon_env () (str ''Gravity'') 5) = Inr [apple_image]
   \<and> length [apple_image] \<le> nat 5"
  using locator_at_most_max [of moon_env "()" "str ''Moon''" 2]
    locator_at_most_max [of moon_env "()" "str ''Gravity''" 5]
    tier2_finds_apple(1) gallery_boxes(2) moon_category_images
  by simp

subsection \<open>C1: when Tier 1 falls through to Tier 2\<close>

text \<open>
  C1, as stated, has Tier 1 fall through to Tier 2 on a status that is not 2xx. The
  function returns the empty list there, without a call of Tier 2: the category of
  "Gravity" answers 404, Tier 2 would find a file, and the Image Locator returns nothing.
\<close>

theorem tier1_status_counterexample:
  "requests_get moon_env () (commons_url (str ''Gravity''))
     = (Some \<lparr>resp_url = str ''https://commons.wikimedia.org/wiki/Category:Gravity'',
               status_code = 404, resp_text = [], resp_content = []\<rparr>, ())
   \<and> get_commons_file_namespace moon_env () (str ''Gravity'') 5 = (Inr [apple_image], ())
   \<and> get_commons_category_images moon_env () (str ''Gravity'') 5 = ([], ())"
proof -
  have r: "requests_get moon_env () (commons_url (str ''Gravity''))
      = (Some \<lparr>resp_url = str ''https://commons.wikimedia.org/wiki/Category:Gravity'',
                status_code = 404, resp_text = [], resp_content = []\<rparr>, ())"
    by (simp only: moon_requests gravity_category_response)
  from tier1_cases [OF r, of 5]
  have "get_commons_category_images moon_env () (str ''Gravity'') 5 = ([], ())"
    by simp
  with r tier2_finds_apple(1) show ?thesis by simp
qed

text \<open>
  C1, amended: for every page title and maximum count, whenever the category fetch of
  Tier 1 is redirected to a generic search result (whatever its status), or has status 200
  and extracts zero image descriptors from the fetched markup, the Image Locator calls
  Tier 2 and returns the results of Tier 2 (the empty list if Tier 2 raises); whenever the
  fetch is not redirected and has a status other than 200, it returns the empty list and
  does not call Tier 2.
\<close>

theorem tier1_falls_through:
  assumes "requests_get E w (commons_url page_name) = (Some response, w')"
  shows "(str_contains (str ''Special:Search'') (resp_url response)
          \<or> status_code response = 200
             \<and> category_page_images (html_parser E (resp_text response)) max_images = []
        \<longrightarrow> get_commons_category_images E w page_name max_images
              = (case get_commons_file_namespace E w' page_name max_images of
                   (Inr images, w'') \<Rightarrow> (images, w'')
                 | (Inl e, w'') \<Rightarrow> ([], w'')))
     \<and> (\<not> str_contains (str ''Special:Search'') (resp_url response)
          \<and> status_code response \<noteq> 200
        \<longrightarrow> get_commons_category_images E w page_name max_images = ([], w'))"
  by (auto simp: tier1_cases [OF assms] tier2_in_try_def split: prod.splits sum.splits)

theorem tier1_falls_through_witness:
  "requests_get moon_env () (commons_url (str ''Apple''))
     = (Some \<lparr>resp_url = str ''https://commons.wikimedia.org/w/index.php?search=Apple&title=Special:Search'',
               status_code = 200, resp_text = str ''results'', resp_content = []\<rparr>, ())
   \<and> str_contains (str ''Special:Search'')
         (str ''https://commons.wikimedia.org/w/index.php?search=Apple&title=Special:Search'')
   \<and> get_commons_category_images moon_env () (str ''Apple'') 5 = ([apple_image], ())
   \<and> requests_get moon_env () (commons_url (str ''Void''))
     = (Some \<lparr>resp_url = str ''https://commons.wikimedia.org/wiki/Category:Void'',
               status_code = 200, resp_text = [], resp_content = []\<rparr>, ())
   \<and> category_page_images (html_parser moon_env []) 5 = []
   \<and> get_commons_category_images moon_env () (str ''Void'') 5 = ([apple_image], ())
   \<and> requests_get moon_env () (commons_url (str ''Gravity''))
     = (Some \<lparr>resp_url = str ''https://commons.wikimedia.org/wiki/Category:Gravity'',
               status_code = 404, resp_text = [], resp_content = []\<rparr>, ())
   \<and> \<not> str_contains (str ''Special:Search'')
         (str ''https://commons.wikimedia.org/wiki/Category:Gravity'')
   \<and> get_commons_category_images moon_env () (str ''Gravity'') 5 = ([], ())"
proof -
  have apple: "requests_get moon_env () (commons_url (str ''Apple''))
      = (Some \<lparr>resp_url = str ''https://commons.wikimedia.org/w/index.php?search=Apple&title=Special:Search'',
                status_code = 200, resp_text = str ''results'', resp_content = []\<rparr>, ())"
    by (simp only: moon_requests apple_category_response)
  have void: "requests_get moon_env () (commons_url (str ''Void''))
      = (Some \<lparr>resp_url = str ''https://commons.wikimedia.org/wiki/Category:Void'',
                status_code = 200, resp_text = [], resp_content = []\<rparr>, ())"
    by (simp only: moon_requests void_category_response)
  have gravity: "requests_get moon_env () (commons_url (str ''Gravity''))
      = (Some \<lparr>resp_url = str ''https://commons.wikimedia.org/wiki/Category:Gravity'',
                status_code = 404, resp_text = [], resp_content = []\<rparr>, ())"
    by (simp only: moon_requests gravity_category_response)
  have redirected: "str_contains (str ''Special:Search'')
      (str ''https://commons.wikimedia.org/w/index.php?search=Apple&title=Special:Search'')"
    by simp
  have direct: "\<not> str_contains (str ''Special:Search'')
      (str ''https://commons.wikimedia.org/wiki/Category:Gravity'')"
    by simp
  have none: "category_page_images (html_parser moon_env []) 5 = []"
    by (simp add: moon_requests moon_parser_pages no_images_in_empty_page)
  have "get_commons_category_images moon_env () (str ''Apple'') 5 = ([apple_image], ())"
    using tier1_falls_through [OF apple, of 5] redirected tier2_finds_apple(2) by simp
  moreover have "get_commons_category_images moon_env () (str ''Void'') 5 = ([apple_image], ())"
    using tier1_falls_through [OF void, of 5] none tier2_finds_apple(3) by simp
  moreover have "get_commons_category_images moon_env () (str ''Gravity'') 5 = ([], ())"
    using tier1_falls_through [OF gravity, of 5] direct by simp
  ultimately show ?thesis
    using apple void gravity redirected direct none by blast
qed

section \<open>Properties of the Thumbnail Upgrader\<close>

lemma sized_link_none:
  "(\<forall>width \<in> set widths. min_width \<le> int width \<longrightarrow>
       \<not> list_ex (link_matches alnum width) size_links) \<Longrightarrow>
     sized_link alnum size_links min_width widths = None"
proof (induction widths)
  case Nil
  then show ?case by simp
next
  case (Cons width widths)
  then have rest: "sized_link alnum size_links min_width widths = None"
    by simp
  show ?case
  proof (cases "int width < min_width")
    case True
    with rest show ?thesis by simp
  next
    case False
    with Cons.prems have "\<not> list_ex (link_matches alnum width) size_links"
      by simp
    then have "filter (link_matches alnum width) size_links = []"
      by (simp add: list_ex_iff filter_empty_conv)
    with False rest show ?thesis by simp
  qed
qed

lemma upgrader_without_sized_link:
  assumes "requests_get E w page_url = (Some response, w')"
    and "status_code response = 200"
    and "sized_link (isalnum E)
           (find_all (all_nodes (html_parser E (resp_text response))) [str ''a''] None)
           min_width candidate_sizes = None"
  shows "find_larger_thumbnail E w page_url min_width
     = (full_image_link (html_parser E (resp_text response)), w')"
  using assms by (simp add: find_larger_thumbnail_def page_thumbnail_def)

subsection \<open>The example pages, evaluated\<close>

lemma candidate_formats:
  "format_comma 1600 = str ''1,600''" "format_comma 1200 = str ''1,200''"
  "format_comma 1000 = str ''1,000''" "format_comma 800 = str ''800''"
  by (simp_all add: format_comma.simps decimal.simps)

lemma small_anchor_text:
  "str_strip (get_text small_anchor) = str ''600 '' @ [215] @ str '' 450 pixels''"
  by (simp add: small_anchor_def size_anchor_def str_strip_def isspace_def)

lemma small_anchor_no_match:
  "\<not> link_matches (\<lambda>c. False) 1600 small_anchor" "\<not> link_matches (\<lambda>c. False) 1200 small_anchor"
  "\<not> link_matches (\<lambda>c. False) 1000 small_anchor" "\<not> link_matches (\<lambda>c. False) 800 small_anchor"
  using candidate_formats small_anchor_text
  by (simp_all add: link_matches_def size_pattern_def)

lemma full_image_anchor_no_match:
  "\<not> link_matches alnum width (hd (tag_contents full_image_div))"
  by (simp add: link_matches_def size_pattern_def full_image_div_def str_strip_def)

lemma detail_anchors:
  "find_all (all_nodes [small_anchor, full_image_div]) [str ''a''] None
     = [small_anchor, hd (tag_contents full_image_div)]"
  "find_all (all_nodes [small_anchor]) [str ''a''] None = [small_anchor]"
  by (simp_all add: all_nodes_def find_all_def small_anchor_def size_anchor_def
      full_image_div_def)

lemma detail_full_image:
  "full_image_link [small_anchor, full_image_div] = Some (str ''https://upload.wikimedia.org/Moon_1.jpg'')"
  "full_image_link [small_anchor] = None"
  by (simp_all add: full_image_link_def all_nodes_def find_def find_all_def small_anchor_def
      size_anchor_def full_image_div_def attr_def absolute_url_def)

lemma detail_responses:
  "requests_get moon_env () (str ''https://commons.wikimedia.org/wiki/File:Moon_1.jpg'')
     = (Some \<lparr>resp_url = str ''https://commons.wikimedia.org/wiki/File:Moon_1.jpg'',
               status_code = 200, resp_text = str ''detail 1'', resp_content = []\<rparr>, ())"
  "requests_get moon_env () (str ''https://commons.wikimedia.org/wiki/File:Moon_2.jpg'')
     = (Some \<lparr>resp_url = str ''https://commons.wikimedia.org/wiki/File:Moon_2.jpg'',
               status_code = 200, resp_text = str ''detail 2'', resp_content = []\<rparr>, ())"
  "requests_get moon_env () (str ''https://commons.wikimedia.org/wiki/File:Moon_3.jpg'')
     = (Some \<lparr>resp_url = str ''https://commons.wikimedia.org/wiki/File:Moon_3.jpg'',
               status_code = 200, resp_text = str ''detail 3'', resp_content = []\<rparr>, ())"
  by (simp_all add: moon_env_def moon_get_def)

lemma detail_trees:
  "html_parser moon_env (str ''detail 1'') = [small_anchor, full_image_div]"
  "html_parser moon_env (str ''detail 2'') = [small_anchor]"
  "html_parser moon_env (str ''detail 3'') = [portrait_anchor]"
  "isalnum moon_env = (\<lambda>c. False)"
  by (simp_all add: moon_env_def moon_parser_def)

lemma narrow_only_pages:
  "\<forall>width \<in> set candidate_sizes. 800 \<le> int width \<longrightarrow>
     \<not> list_ex (link_matches (\<lambda>c. False) width)
         (find_all (all_nodes [small_anchor, full_image_div]) [str ''a''] None)"
  "\<forall>width \<in> set candidate_sizes. 800 \<le> int width \<longrightarrow>
     \<not> list_ex (link_matches (\<lambda>c. False) width)
         (find_all (all_nodes [small_anchor]) [str ''a''] None)"
  using small_anchor_no_match detail_anchors
    full_image_anchor_no_match [of "\<lambda>c. False"]
  by (simp_all add: candidate_sizes_def)

subsection \<open>C9: a page that lists only narrower renditions\<close>

text \<open>
  C9, as stated, ends with no result, so that the caller uses the original thumbnail. When
  no sized anchor matches, the upgrader goes on to the full-image link of the page, and
  returns the address of its image: for a detail page whose only sized anchor reads
  600 by 450 pixels, and a minimum of 800, its result is the image of the full-image link,
  and that, not the thumbnail of the descriptor, is what the downloader fetches.
\<close>

theorem full_image_counterexample:
  "map (\<lambda>link. str_strip (get_text link))
       (find_all (all_nodes (html_parser moon_env (str ''detail 1''))) [str ''a''] None)
     = [str ''600 '' @ [215] @ str '' 450 pixels'', []]
   \<and> find_larger_thumbnail moon_env ()
         (str ''https://commons.wikimedia.org/wiki/File:Moon_1.jpg'') 800
       = (Some (str ''https://upload.wikimedia.org/Moon_1.jpg''), ())
   \<and> thumbnail_url (moon_image (str ''Moon_1.jpg''))
       = str ''https://upload.wikimedia.org/thumb/Moon_1.jpg''
   \<and> fetch_image moon_env () 800 (moon_image (str ''Moon_1.jpg''))
       = (Some \<lparr>resp_url = str ''https://upload.wikimedia.org/Moon_1.jpg'', status_code = 200,
                 resp_text = [], resp_content = [255, 216, 9]\<rparr>, ())"
proof -
  have "sized_link (isalnum moon_env)
      (find_all (all_nodes (html_parser moon_env (str ''detail 1''))) [str ''a''] None)
      800 candidate_sizes = None"
    using narrow_only_pages(1) detail_trees by (simp add: sized_link_none)
  then have larger: "find_larger_thumbnail moon_env ()
      (str ''https://commons.wikimedia.org/wiki/File:Moon_1.jpg'') 800
    = (Some (str ''https://upload.wikimedia.org/Moon_1.jpg''), ())"
    using upgrader_without_sized_link [OF detail_responses(1), of 800]
      detail_trees detail_full_image
    by simp
  have texts: "map (\<lambda>link. str_strip (get_text link))
       (find_all (all_nodes (html_parser moon_env (str ''detail 1''))) [str ''a''] None)
     = [str ''600 '' @ [215] @ str '' 450 pixels'', []]"
    using detail_trees detail_anchors small_anchor_text
    by (simp add: full_image_div_def str_strip_def)
  have thumb: "thumbnail_url (moon_image (str ''Moon_1.jpg''))
      = str ''https://upload.wikimedia.org/thumb/Moon_1.jpg''"
    by (simp add: moon_image_def)
  have "requests_get moon_env () (str ''https://upload.wikimedia.org/Moon_1.jpg'')
      = (Some \<lparr>resp_url = str ''https://upload.wikimedia.org/Moon_1.jpg'', status_code = 200,
                resp_text = [], resp_content = [255, 216, 9]\<rparr>, ())"
    by (simp add: moon_env_def moon_get_def)
  moreover have "file_page (moon_image (str ''Moon_1.jpg''))
      = str ''https://commons.wikimedia.org/wiki/File:Moon_1.jpg''"
    by (simp add: moon_image_def)
  ultimately have "fetch_image moon_env () 800 (moon_image (str ''Moon_1.jpg''))
      = (Some \<lparr>resp_url = str ''https://upload.wikimedia.org/Moon_1.jpg'', status_code = 200,
                resp_text = [], resp_content = [255, 216, 9]\<rparr>, ())"
    using larger by (simp add: fetch_image_def)
  with larger texts thumb show ?thesis
    by blast
qed

text \<open>
  C9, amended: for every detail page, fetched with status 200, on which no anchor passes
  the size test for a candidate width of the list {1600, 1200, 1000, 800, 600, 400, 300}
  that is not below the requested minimum (a page whose only sized anchor reads 600 by
  450 pixels, with a minimum of 800, is one), the Thumbnail Upgrader matches no sized
  candidate, whatever the anchors say for the candidates below the minimum, which are
  skipped. Its result is then the image address of the full-image link of the page, and
  no result if the page has none: only then is the caller left with the original
  thumbnail. The size test of an anchor for a width is that of the code: the text of the
  anchor contains the formatted width between word boundaries, \<^verbatim>\<open>pixel\<close> follows on the same
  line, and the target contains \<^verbatim>\<open>/thumb/\<close>.
\<close>

theorem narrow_renditions_are_skipped:
  assumes "requests_get E w page_url = (Some response, w')"
    and "status_code response = 200"
    and "\<forall>width \<in> set candidate_sizes. min_width \<le> int width \<longrightarrow>
           \<not> list_ex (link_matches (isalnum E) width)
               (find_all (all_nodes (html_parser E (resp_text response))) [str ''a''] None)"
  shows "sized_link (isalnum E)
           (find_all (all_nodes (html_parser E (resp_text response))) [str ''a''] None)
           min_width candidate_sizes = None
     \<and> find_larger_thumbnail E w page_url min_width
         = (full_image_link (html_parser E (resp_text response)), w')"
  using sized_link_none [OF assms(3)] upgrader_without_sized_link [OF assms(1) assms(2)]
  by simp

theorem narrow_renditions_are_skipped_witness:
  "requests_get moon_env () (str ''https://commons.wikimedia.org/wiki/File:Moon_2.jpg'')
     = (Some \<lparr>resp_url = str ''https://commons.wikimedia.org/wiki/File:Moon_2.jpg'',
               status_code = 200, resp_text = str ''detail 2'', resp_content = []\<rparr>, ())
   \<and> find_all (all_nodes (html_parser moon_env (str ''detail 2''))) [str ''a''] None
       = [small_anchor]
   \<and> \<not> link_matches (isalnum moon_env) 1600 small_anchor
   \<and> \<not> link_matches (isalnum moon_env) 1200 small_anchor
   \<and> \<not> link_matches (isalnum moon_env) 1000 small_anchor
   \<and> \<not> link_matches (isalnum moon_env) 800 small_anchor
   \<and> link_matches (isalnum moon_env) 600 small_anchor
   \<and> find_larger_thumbnail moon_env ()
        (str ''https://commons.wikimedia.org/wiki/File:Moon_2.jpg'') 800 = (None, ())"
proof -
  have h: "\<forall>width \<in> set candidate_sizes. 800 \<le> int width \<longrightarrow>
      \<not> list_ex (link_matches (isalnum moon_env) width)
          (find_all (all_nodes (html_parser moon_env
             (resp_text \<lparr>resp_url = str ''https://commons.wikimedia.org/wiki/File:Moon_2.jpg'',
                status_code = 200, resp_text = str ''detail 2'', resp_content = []\<rparr>)))
             [str ''a''] None)"
    using narrow_only_pages(2) detail_trees by simp
  have "format_comma 600 = str ''600''"
    by (simp add: format_comma.simps decimal.simps)
  then have m: "link_matches (isalnum moon_env) 600 small_anchor"
    using detail_trees small_anchor_text
    by (simp add: link_matches_def size_pattern_def is_word_def ascii_alnum_def link_href_def
        attr_def small_anchor_def size_anchor_def)
  have n: "\<not> link_matches (isalnum moon_env) 1600 small_anchor"
    "\<not> link_matches (isalnum moon_env) 1200 small_anchor"
    "\<not> link_matches (isalnum moon_env) 1000 small_anchor"
    "\<not> link_matches (isalnum moon_env) 800 small_anchor"
    using small_anchor_no_match detail_trees by simp_all
  have a: "find_all (all_nodes (html_parser moon_env (str ''detail 2''))) [str ''a''] None
      = [small_anchor]"
    using detail_trees detail_anchors by simp
  have "find_larger_thumbnail moon_env ()
      (str ''https://commons.wikimedia.org/wiki/File:Moon_2.jpg'') 800 = (None, ())"
    using narrow_renditions_are_skipped [OF detail_responses(2) _ h]
      detail_trees detail_full_image
    by simp
  with detail_responses(2) a n m show ?thesis
    by blast
qed

text \<open>
  The size test looks for the number anywhere in the text of the anchor, so it also takes
  a height for a width: an anchor for a rendition of 600 by 800 pixels passes the test for
  the candidate 800. (The amended claim says nothing for such a page.)
\<close>

lemma portrait_height_passes:
  "find_larger_thumbnail moon_env ()
     (str ''https://commons.wikimedia.org/wiki/File:Moon_3.jpg'') 800
   = (Some (str ''https://upload.wikimedia.org/thumb/Moon_3.jpg/600px-Moon_3.jpg''), ())"
proof -
  have "find_all (all_nodes [portrait_anchor]) [str ''a''] None = [portrait_anchor]"
    by (simp add: all_nodes_def find_all_def portrait_anchor_def size_anchor_def)
  moreover have "str_strip (get_text portrait_anchor) = str ''600 '' @ [215] @ str '' 800 pixels''"
    by (simp add: portrait_anchor_def size_anchor_def str_strip_def isspace_def)
  then have "\<not> link_matches (\<lambda>c. False) 1600 portrait_anchor
      \<and> \<not> link_matches (\<lambda>c. False) 1200 portrait_anchor
      \<and> \<not> link_matches (\<lambda>c. False) 1000 portrait_anchor
      \<and> link_matches (\<lambda>c. False) 800 portrait_anchor"
    using candidate_formats
    by (simp add: link_matches_def size_pattern_def is_word_def ascii_alnum_def link_href_def
        attr_def portrait_anchor_def size_anchor_def)
  moreover have "absolute_url (link_href portrait_anchor)
      = str ''https://upload.wikimedia.org/thumb/Moon_3.jpg/600px-Moon_3.jpg''"
    by (simp add: absolute_url_def link_href_def attr_def portrait_anchor_def size_anchor_def)
  ultimately have "page_thumbnail (\<lambda>c. False) [portrait_anchor] 800
      = Some (str ''https://upload.wikimedia.org/thumb/Moon_3.jpg/600px-Moon_3.jpg'')"
    by (simp add: page_thumbnail_def candidate_sizes_def)
  then show ?thesis
    using detail_responses(3) detail_trees by (simp add: find_larger_thumbnail_def)
qed

section \<open>Properties of the Image Downloader\<close>

subsection \<open>One descriptor\<close>

lemma download_one_success:
  assumes "fetch_image E w min_width img_info = (Some response, w')"
    and "status_code response = 200"
    and "Image_open E (resp_content response)"
    and "open_wb E w' (destination folder img_info)"
  shows "download_one E folder min_width img_info (w, fs)
     = (Some (destination folder img_info), w',
        fs(destination folder img_info \<mapsto> resp_content response))"
  using assms by (simp add: download_one_def Let_def)

lemma download_one_saved_iff:
  "fst (download_one E folder min_width img_info (w, fs)) \<noteq> None \<longleftrightarrow>
     (\<exists>response w'. fetch_image E w min_width img_info = (Some response, w')
        \<and> status_code response = 200 \<and> Image_open E (resp_content response)
        \<and> open_wb E w' (destination folder img_info))"
  by (auto simp: download_one_def Let_def split: prod.splits option.splits)

lemma download_one_failure:
  "download_one E folder min_width img_info (w, fs) = (None, w', fs') \<Longrightarrow> fs' = fs"
  by (auto simp: download_one_def Let_def split: prod.splits option.splits if_splits)

subsection \<open>The loop\<close>

lemma download_loop_append:
  "download_loop E folder min_width (xs @ ys) st
     = download_loop E folder min_width ys (download_loop E folder min_width xs st)"
proof (induction xs arbitrary: st)
  case Nil
  show ?case by (cases st) simp
next
  case (Cons x xs)
  obtain saved w fs where st: "st = (saved, w, fs)"
    by (cases st) auto
  obtain r w' fs' where one: "download_one E folder min_width x (w, fs) = (r, w', fs')"
    by (cases "download_one E folder min_width x (w, fs)") auto
  show ?case
    using Cons.IH by (cases r) (simp_all add: st one)
qed

lemma download_loop_outcomes:
  "fst (download_loop E folder min_width images_list (saved, w, fs))
     = saved @ successes (outcomes E folder min_width images_list (w, fs))"
proof (induction images_list arbitrary: saved w fs)
  case Nil
  show ?case by (simp add: successes_def)
next
  case (Cons x xs)
  obtain r w' fs' where one: "download_one E folder min_width x (w, fs) = (r, w', fs')"
    by (cases "download_one E folder min_width x (w, fs)") auto
  show ?case
  proof (cases r)
    case None
    with one Cons.IH [of saved w' fs'] show ?thesis
      by (simp add: successes_def)
  next
    case (Some file_path)
    with one Cons.IH [of "saved @ [file_path]" w' fs'] show ?thesis
      by (simp add: successes_def)
  qed
qed

lemma outcomes_length: "length (outcomes E folder min_width images_list st) = length images_list"
  by (induction images_list arbitrary: st) (auto split: prod.splits)

lemma download_loop_failure_step:
  "download_one E folder min_width img_info (w, fs) = (None, w', fs') \<Longrightarrow>
     download_loop E folder min_width (img_info # rest) (saved, w, fs)
       = download_loop E folder min_width rest (saved, w', fs)"
  using download_one_failure [of E folder min_width img_info w fs w' fs'] by simp

subsection \<open>The example batch, evaluated\<close>

lemma moon_env_fields:
  "requests_get moon_env w url = (moon_get url, w)"
  "Image_open moon_env content = (take 2 content = [255, 216])"
  "open_wb moon_env w path = True"
  "os_path_exists moon_env w folder = True"
  by (simp_all add: moon_env_def)

lemma no_detail_pages:
  "find_larger_thumbnail moon_env () (file_page image_a) 800 = (None, ())"
  "find_larger_thumbnail moon_env () (file_page image_b) 800 = (None, ())"
  "find_larger_thumbnail moon_env () (file_page image_broken) 800 = (None, ())"
  "find_larger_thumbnail moon_env () (file_page image_gone) 800 = (None, ())"
  by (simp_all add: find_larger_thumbnail_def moon_env_fields moon_get_def image_a_def
      image_b_def image_broken_def image_gone_def)

lemma batch_fetches:
  "fetch_image moon_env () 800 image_a
     = (Some \<lparr>resp_url = str ''https://upload.wikimedia.org/thumb/A.jpg'', status_code = 200,
               resp_text = [], resp_content = [255, 216, 1]\<rparr>, ())"
  "fetch_image moon_env () 800 image_b
     = (Some \<lparr>resp_url = str ''https://upload.wikimedia.org/thumb/B.jpg'', status_code = 200,
               resp_text = [], resp_content = [255, 216, 2]\<rparr>, ())"
  "fetch_image moon_env () 800 image_broken
     = (Some \<lparr>resp_url = str ''https://upload.wikimedia.org/thumb/broken.jpg'', status_code = 200,
               resp_text = [], resp_content = [0, 0]\<rparr>, ())"
  "fetch_image moon_env () 800 image_gone
     = (Some \<lparr>resp_url = str ''https://upload.wikimedia.org/thumb/gone.jpg'', status_code = 404,
               resp_text = [], resp_content = []\<rparr>, ())"
  by (simp_all add: fetch_image_def no_detail_pages moon_env_fields)
     (simp_all add: moon_get_def image_a_def image_b_def image_broken_def image_gone_def)

lemma batch_destinations:
  "destination (str ''wiki_images'') image_a = moon_path"
  "destination (str ''wiki_images'') image_b = moon_path"
  by (simp_all add: destination_def os_path_join_def endswith_def sanitize_def image_a_def
      image_b_def moon_path_def)

lemma batch_steps:
  "download_one moon_env (str ''wiki_images'') 800 image_a ((), fs)
     = (Some moon_path, (), fs(moon_path \<mapsto> [255, 216, 1]))"
  "download_one moon_env (str ''wiki_images'') 800 image_b ((), fs)
     = (Some moon_path, (), fs(moon_path \<mapsto> [255, 216, 2]))"
  "download_one moon_env (str ''wiki_images'') 800 image_broken ((), fs) = (None, (), fs)"
  "download_one moon_env (str ''wiki_images'') 800 image_gone ((), fs) = (None, (), fs)"
  using batch_destinations
  by (simp_all add: download_one_def Let_def batch_fetches moon_env_fields)

lemma batch_outcomes:
  "outcomes moon_env (str ''wiki_images'') 800 [image_a, image_broken, image_gone, image_b]
     ((), Map.empty) = [Some moon_path, None, None, Some moon_path]"
  using batch_steps by simp

subsection \<open>C4: a failure never aborts the batch\<close>

text \<open>
  C4: for every input list, once the destination folder is there, the downloader returns
  a list, and that list holds exactly the paths of the descriptors that succeeded, in
  their order, every descriptor of the input having been attempted in the state that its
  predecessors left. A descriptor fails (transport error, a status other than 200, bytes
  that do not decode, a file that cannot be written) exactly when it is not the case
  that it was fetched with status 200, decoded and written; a failure changes neither
  the files nor the list, and the loop goes on with the remaining descriptors.
\<close>

theorem batch_never_aborts:
  assumes "prepare_folder E w folder = Some w0"
  shows "(\<exists>w' fs'. download_thumbnail_images E images_list folder min_width (w, fs)
            = Inr (successes (outcomes E folder min_width images_list (w0, fs)), w', fs'))
     \<and> length (outcomes E folder min_width images_list (w0, fs)) = length images_list
     \<and> (\<forall>img_info rest saved w1 fs1 w2 fs2.
          download_one E folder min_width img_info (w1, fs1) = (None, w2, fs2) \<longrightarrow>
            fs2 = fs1
            \<and> download_loop E folder min_width (img_info # rest) (saved, w1, fs1)
                = download_loop E folder min_width rest (saved, w2, fs1))
     \<and> (\<forall>img_info w1 fs1.
          fst (download_one E folder min_width img_info (w1, fs1)) = None \<longleftrightarrow>
            \<not> (\<exists>response w2. fetch_image E w1 min_width img_info = (Some response, w2)
                  \<and> status_code response = 200 \<and> Image_open E (resp_content response)
                  \<and> open_wb E w2 (destination folder img_info)))"
proof -
  obtain saved' w' fs' where loop:
    "download_loop E folder min_width images_list ([], w0, fs) = (saved', w', fs')"
    by (cases "download_loop E folder min_width images_list ([], w0, fs)") auto
  with download_loop_outcomes [of E folder min_width images_list "[]" w0 fs]
  have "saved' = successes (outcomes E folder min_width images_list (w0, fs))"
    by simp
  with loop assms have
    "\<exists>w' fs'. download_thumbnail_images E images_list folder min_width (w, fs)
       = Inr (successes (outcomes E folder min_width images_list (w0, fs)), w', fs')"
    by (simp add: download_thumbnail_images_def)
  moreover have "\<forall>img_info rest saved w1 fs1 w2 fs2.
      download_one E folder min_width img_info (w1, fs1) = (None, w2, fs2) \<longrightarrow>
        fs2 = fs1
        \<and> download_loop E folder min_width (img_info # rest) (saved, w1, fs1)
            = download_loop E folder min_width rest (saved, w2, fs1)"
  proof (intro allI impI)
    fix img_info rest saved w1 fs1 w2 fs2
    assume d: "download_one E folder min_width img_info (w1, fs1) = (None, w2, fs2)"
    from download_one_failure [OF d] download_loop_failure_step [OF d, of rest saved]
    show "fs2 = fs1
        \<and> download_loop E folder min_width (img_info # rest) (saved, w1, fs1)
            = download_loop E folder min_width rest (saved, w2, fs1)"
      by simp
  qed
  moreover have "\<forall>img_info w1 fs1.
      fst (download_one E folder min_width img_info (w1, fs1)) = None \<longleftrightarrow>
        \<not> (\<exists>response w2. fetch_image E w1 min_width img_info = (Some response, w2)
              \<and> status_code response = 200 \<and> Image_open E (resp_content response)
              \<and> open_wb E w2 (destination folder img_info))"
    using download_one_saved_iff [of E folder min_width] by blast
  ultimately show ?thesis
    using outcomes_length by blast
qed

theorem batch_never_aborts_witness:
  "prepare_folder moon_env () (str ''wiki_images'') = Some ()
   \<and> outcomes moon_env (str ''wiki_images'') 800 [image_a, image_broken, image_gone, image_b]
       ((), Map.empty) = [Some moon_path, None, None, Some moon_path]
   \<and> (\<exists>w' fs'. download_thumbnail_images moon_env [image_a, image_broken, image_gone, image_b]
         (str ''wiki_images'') 800 ((), Map.empty) = Inr ([moon_path, moon_path], w', fs'))"
proof -
  have p: "prepare_folder moon_env () (str ''wiki_images'') = Some ()"
    by (simp add: prepare_folder_def moon_env_fields)
  have "successes [Some moon_path, None, None, Some moon_path] = [moon_path, moon_path]"
    by (simp add: successes_def)
  with batch_never_aborts [OF p, of "[image_a, image_broken, image_gone, image_b]" 800 Map.empty]
    p batch_outcomes
  show ?thesis by simp
qed

subsection \<open>C10: two descriptors with the same sanitized name\<close>

lemma same_destination:
  "sanitize (filename a) = sanitize (filename b) \<Longrightarrow> destination folder b = destination folder a"
  by (simp add: destination_def)

text \<open>
  C10: the destination of a descriptor is the folder joined with its sanitized name and
  nothing else, so two descriptors whose names sanitize to the same name have the same
  destination. Let the batch be: any descriptors \<open>before\<close>, then \<open>a\<close>, any descriptors
  \<open>between\<close>, then \<open>b\<close>, where \<open>a\<close> and \<open>b\<close> are both fetched with status 200, decoded and
  written. Then the list of saved paths holds the common destination twice, once for \<open>a\<close>
  and once for \<open>b\<close>, and after \<open>b\<close> the file at that destination holds the bytes fetched
  for \<open>b\<close>, whatever was there before.
\<close>

theorem same_name_overwrites:
  assumes "sanitize (filename a) = sanitize (filename b)"
    and "prepare_folder E w_start folder = Some w0"
    and "download_loop E folder min_width before ([], w0, fs0) = (saved, w, fs)"
    and "fetch_image E w min_width a = (Some response_a, w1)"
    and "status_code response_a = 200" and "Image_open E (resp_content response_a)"
    and "open_wb E w1 (destination folder a)"
    and "download_loop E folder min_width between
           (saved @ [destination folder a], w1,
            fs(destination folder a \<mapsto> resp_content response_a)) = (saved2, w2, fs2)"
    and "fetch_image E w2 min_width b = (Some response_b, w3)"
    and "status_code response_b = 200" and "Image_open E (resp_content response_b)"
    and "open_wb E w3 (destination folder b)"
  shows "destination folder b = destination folder a
     \<and> (\<exists>extra. download_thumbnail_images E (before @ a # between @ [b]) folder min_width
                    (w_start, fs0)
          = Inr (saved @ [destination folder a] @ extra @ [destination folder a], w3,
                 fs2(destination folder a \<mapsto> resp_content response_b)))"
proof -
  have same: "destination folder b = destination folder a"
    using assms(1) by (rule same_destination)
  have step_a: "download_one E folder min_width a (w, fs)
      = (Some (destination folder a), w1,
         fs(destination folder a \<mapsto> resp_content response_a))"
    using assms(4-7) by (rule download_one_success)
  have step_b: "download_one E folder min_width b (w2, fs2)
      = (Some (destination folder a), w3,
         fs2(destination folder a \<mapsto> resp_content response_b))"
    using download_one_success [OF assms(9-12), of fs2] same by simp
  obtain extra where extra: "saved2 = (saved @ [destination folder a]) @ extra"
    using download_loop_outcomes [of E folder min_width between
        "saved @ [destination folder a]" w1
        "fs(destination folder a \<mapsto> resp_content response_a)"] assms(8)
    by simp
  have "download_loop E folder min_width (before @ a # between @ [b]) ([], w0, fs0)
      = download_loop E folder min_width (a # between @ [b]) (saved, w, fs)"
    by (simp only: download_loop_append assms(3))
  also have "\<dots> = download_loop E folder min_width (between @ [b])
      (saved @ [destination folder a], w1,
       fs(destination folder a \<mapsto> resp_content response_a))"
    by (simp add: step_a)
  also have "\<dots> = download_loop E folder min_width [b] (saved2, w2, fs2)"
    by (simp only: download_loop_append assms(8))
  also have "\<dots> = (saved2 @ [destination folder a], w3,
      fs2(destination folder a \<mapsto> resp_content response_b))"
    by (simp add: step_b)
  finally have "download_thumbnail_images E (before @ a # between @ [b]) folder min_width
      (w_start, fs0)
    = Inr (saved @ [destination folder a] @ extra @ [destination folder a], w3,
           fs2(destination folder a \<mapsto> resp_content response_b))"
    using assms(2) extra by (simp add: download_thumbnail_images_def)
  with same show ?thesis by blast
qed

theorem same_name_overwrites_witness:
  "sanitize (filename image_a) = sanitize (filename image_b)
   \<and> filename image_a \<noteq> filename image_b
   \<and> resp_content (the (fst (fetch_image moon_env () 800 image_a))) = [255, 216, 1]
   \<and> resp_content (the (fst (fetch_image moon_env () 800 image_b))) = [255, 216, 2]
   \<and> destination (str ''wiki_images'') image_a = moon_path
   \<and> download_thumbnail_images moon_env [image_a, image_broken, image_gone, image_b]
        (str ''wiki_images'') 800 ((), Map.empty)
      = Inr ([moon_path, moon_path], (), [moon_path \<mapsto> [255, 216, 2]])"
proof -
  have names: "sanitize (filename image_a) = sanitize (filename image_b)"
    "filename image_a \<noteq> filename image_b"
    by (simp_all add: sanitize_def image_a_def image_b_def)
  have folder: "prepare_folder moon_env () (str ''wiki_images'') = Some ()"
    by (simp add: prepare_folder_def moon_env_fields)
  have before: "download_loop moon_env (str ''wiki_images'') 800 [] ([], (), Map.empty)
      = ([], (), Map.empty)"
    by simp
  have between: "download_loop moon_env (str ''wiki_images'') 800 [image_broken, image_gone]
      ([] @ [destination (str ''wiki_images'') image_a], (),
       Map.empty(destination (str ''wiki_images'') image_a \<mapsto>
         resp_content \<lparr>resp_url = str ''https://upload.wikimedia.org/thumb/A.jpg'',
           status_code = 200, resp_text = [], resp_content = [255, 216, 1]\<rparr>))
      = ([moon_path], (), [moon_path \<mapsto> [255, 216, 1]])"
    using batch_steps(3,4) batch_destinations by simp
  have decodes: "Image_open moon_env [255, 216, 1]" "Image_open moon_env [255, 216, 2]"
    by (simp_all add: moon_env_fields)
  have writes: "open_wb moon_env () (destination (str ''wiki_images'') image_a)"
    "open_wb moon_env () (destination (str ''wiki_images'') image_b)"
    by (simp_all add: moon_env_fields)
  have "\<exists>extra. download_thumbnail_images moon_env ([] @ image_a # [image_broken, image_gone] @ [image_b])
        (str ''wiki_images'') 800 ((), Map.empty)
      = Inr ([] @ [destination (str ''wiki_images'') image_a] @ extra
               @ [destination (str ''wiki_images'') image_a], (),
             [moon_path \<mapsto> [255, 216, 1]](destination (str ''wiki_images'') image_a \<mapsto>
               resp_content \<lparr>resp_url = str ''https://upload.wikimedia.org/thumb/B.jpg'',
                 status_code = 200, resp_text = [], resp_content = [255, 216, 2]\<rparr>))"
    using same_name_overwrites [OF names(1) folder before batch_fetches(1) _ _ writes(1)
        between batch_fetches(2) _ _ writes(2)] decodes
    by simp
  then obtain extra where result:
    "download_thumbnail_images moon_env [image_a, image_broken, image_gone, image_b]
        (str ''wiki_images'') 800 ((), Map.empty)
      = Inr (moon_path # extra @ [moon_path], (), [moon_path \<mapsto> [255, 216, 2]])"
    using batch_destinations by auto
  have "fst (download_loop moon_env (str ''wiki_images'') 800
        [image_a, image_broken, image_gone, image_b] ([], (), Map.empty))
      = [moon_path, moon_path]"
    using batch_outcomes
    by (simp only: download_loop_outcomes) (simp add: successes_def)
  with result folder have "extra = []"
    by (simp add: download_thumbnail_images_def)
  with result names batch_fetches(1,2) batch_destinations(1) show ?thesis
    by simp
qed

end
